theory Spec2Isabelle
  imports Complex_Main
begin

section \<open>Calendar dates and timestamps\<close>

text \<open>
  \<^verbatim>\<open>st.date_input\<close> yields a \<^verbatim>\<open>datetime.date\<close>; the f-string writes it into the SQL text
  as \<^verbatim>\<open>YYYY-MM-DD\<close>, which the warehouse reads back as that date at midnight.
  A timestamp is a date and the seconds elapsed within the day.
\<close>

record date =
  year :: nat
  month :: nat
  day :: nat

record timestamp =
  ts_date :: date
  ts_secs :: nat

definition date_key :: "date \<Rightarrow> nat" where
  "date_key d = year d * 10000 + month d * 100 + day d"

definition date_less :: "date \<Rightarrow> date \<Rightarrow> bool" where
  "date_less a b = (date_key a < date_key b)"

definition ts_key :: "timestamp \<Rightarrow> nat" where
  "ts_key t = date_key (ts_date t) * 86400 + ts_secs t"

definition midnight :: "date \<Rightarrow> timestamp" where
  "midnight d = \<lparr>ts_date = d, ts_secs = 0\<rparr>"

text \<open>SQL \<^verbatim>\<open>x BETWEEN a AND b\<close>: \<^verbatim>\<open>a <= x AND x <= b\<close>; a NULL operand never satisfies it.\<close>

definition between :: "timestamp option \<Rightarrow> date \<Rightarrow> date \<Rightarrow> bool" where
  "between t a b =
     (case t of None \<Rightarrow> False
      | Some x \<Rightarrow> ts_key (midnight a) \<le> ts_key x \<and> ts_key x \<le> ts_key (midnight b))"

section \<open>The warehouse table \<^verbatim>\<open>CANDIVORE_TEST_DB.ATOMIC.EVENTS\<close>\<close>

text \<open>
  Only the columns the two queries read. Every column is nullable (\<open>None\<close> is SQL NULL).
  The user-context column is semi-structured (a VARIANT): an object with the fields
  \<^verbatim>\<open>uuid\<close> and \<^verbatim>\<open>user_name\<close>, an array of such values, or a scalar. The purchase
  payload is kept as the JSON text the driver hands to pandas, next to the number the
  warehouse reads at its path \<^verbatim>\<open>iap_price\<close> (a FLOAT, idealised as a real: no property
  below depends on its arithmetic).
\<close>

record user_stats =
  ctx_uuid :: "string option"
  ctx_user_name :: "string option"

datatype variant = V_scalar string | V_object user_stats | V_array "variant list"

record event =
  geo_city :: "string option"
  derived_tstamp :: "timestamp option"
  event_name :: "string option"
  user_base_stats :: "variant option"
  in_app_purchase :: "string option"
  iap_price :: "real option"

text \<open>
  \<^verbatim>\<open>v:uuid::string\<close> and \<^verbatim>\<open>v:user_name::string\<close>: a path by field name is NULL on
  NULL and on anything that is not an object.
\<close>

definition path_uuid :: "variant option \<Rightarrow> string option" where
  "path_uuid v = (case v of Some (V_object s) \<Rightarrow> ctx_uuid s | _ \<Rightarrow> None)"

definition path_user_name :: "variant option \<Rightarrow> string option" where
  "path_user_name v = (case v of Some (V_object s) \<Rightarrow> ctx_user_name s | _ \<Rightarrow> None)"

text \<open>
  \<^verbatim>\<open>LATERAL FLATTEN(input => v)\<close>: one row per element of an array, one row per field
  value of an object, none for NULL or a scalar.
\<close>

definition lateral_flatten :: "variant option \<Rightarrow> variant list" where
  "lateral_flatten v =
     (case v of
        Some (V_array xs) \<Rightarrow> xs
      | Some (V_object s) \<Rightarrow> map V_scalar (List.map_filter id [ctx_uuid s, ctx_user_name s])
      | _ \<Rightarrow> [])"

section \<open>\<^verbatim>\<open>load_data\<close>: the city-statistics query\<close>

record city_stats =
  city :: "string option"
  number_of_users :: nat
  number_of_purchases :: nat

text \<open>
  \<^verbatim>\<open>WHERE derived_tstamp BETWEEN '{start_date}' AND '{end_date}'
        AND CONTEXTS_IO_CANDIVORE_USER_BASE_STATS_1 IS NOT NULL\<close>
\<close>

definition city_where :: "date \<Rightarrow> date \<Rightarrow> event \<Rightarrow> bool" where
  "city_where start_date end_date e =
     (between (derived_tstamp e) start_date end_date \<and> user_base_stats e \<noteq> None)"

text \<open>
  One output row per group of \<^verbatim>\<open>GROUP BY GEO_CITY\<close>:
  \<^verbatim>\<open>COUNT(DISTINCT(...:uuid::string))\<close> counts the distinct non-NULL values,
  \<^verbatim>\<open>SUM(CASE WHEN EVENT_NAME = 'in_app_purchase' THEN 1 ELSE 0 END)\<close> the purchase events.
\<close>

definition city_group :: "event list \<Rightarrow> string option \<Rightarrow> city_stats" where
  "city_group es c =
     (let g = filter (\<lambda>e. geo_city e = c) es in
      \<lparr>city = c,
       number_of_users = length (remdups (List.map_filter (\<lambda>e. path_uuid (user_base_stats e)) g)),
       number_of_purchases = length (filter (\<lambda>e. event_name e = Some ''in_app_purchase'') g)\<rparr>)"

text \<open>
  \<^verbatim>\<open>ORDER BY number_of_users DESC\<close>: a stable sort on the negated count (SQL leaves the
  order of ties open; here it follows the order of the groups).
\<close>

definition order_by_users_desc :: "city_stats list \<Rightarrow> city_stats list" where
  "order_by_users_desc rows = sort_key (\<lambda>r. - int (number_of_users r)) rows"

definition city_stats_query :: "date \<Rightarrow> date \<Rightarrow> event list \<Rightarrow> city_stats list" where
  "city_stats_query start_date end_date es =
     (let matching = filter (city_where start_date end_date) es;
          groups = map (city_group matching) (remdups (map geo_city matching))
      in take 10 (order_by_users_desc groups))"

section \<open>The user-purchase query of the Events tab\<close>

record purchase_row =
  purchase_date :: "date option"
  user_name :: "string option"
  purchase_data :: "string option"
  daily_purchase_amount :: "real option"

text \<open>
  The f-string writes \<^verbatim>\<open>user_id\<close> between single quotes. The warehouse reads the text
  back as a string constant: two quotes in a row are one quote character, and the constant
  ends at the quote the template closes it with. An identifier with a quote that is not
  doubled, or with a backslash, does not read back as one constant up to the template's
  quote: the statement is then another statement, which this model does not parse
  (\<open>None\<close>).
\<close>

fun sql_unquote :: "string \<Rightarrow> string option" where
  "sql_unquote [] = Some []"
| "sql_unquote [c] = (if c = CHR 0x27 \<or> c = CHR 0x5C then None else Some [c])"
| "sql_unquote (c # d # cs) =
     (if c = CHR 0x27 then
        (if d = CHR 0x27 then map_option (\<lambda>r. CHR 0x27 # r) (sql_unquote cs) else None)
      else if c = CHR 0x5C then None
      else map_option (\<lambda>r. c # r) (sql_unquote (d # cs)))"

text \<open>
  \<^verbatim>\<open>FROM EVENTS, LATERAL FLATTEN(input => CONTEXTS_IO_CANDIVORE_USER_BASE_STATS_1) f
  WHERE f.value:uuid::string = '{user_id}' AND EVENT_NAME = 'in_app_purchase'
        AND UNSTRUCT_EVENT_IO_CANDIVORE_IN_APP_PURCHASE_1 IS NOT NULL\<close>:
  the joined rows are pairs of an event and one flattened value.
\<close>

definition purchase_join :: "event list \<Rightarrow> (event \<times> variant) list" where
  "purchase_join es = concat (map (\<lambda>e. map (\<lambda>f. (e, f)) (lateral_flatten (user_base_stats e))) es)"

definition purchase_where :: "string \<Rightarrow> event \<times> variant \<Rightarrow> bool" where
  "purchase_where ident ef =
     (path_uuid (Some (snd ef)) = Some ident \<and>
      event_name (fst ef) = Some ''in_app_purchase'' \<and>
      in_app_purchase (fst ef) \<noteq> None)"

text \<open>
  \<^verbatim>\<open>GROUP BY DATE(derived_tstamp), f.value:user_name::string, UNSTRUCT_EVENT_...\<close>, with
  \<^verbatim>\<open>SUM(...:iap_price::float)\<close> over the group (NULL when no member has a price).
\<close>

definition purchase_key :: "event \<times> variant \<Rightarrow> date option \<times> string option \<times> string option" where
  "purchase_key ef =
     (map_option ts_date (derived_tstamp (fst ef)),
      path_user_name (Some (snd ef)),
      in_app_purchase (fst ef))"

definition sum_prices :: "real option list \<Rightarrow> real option" where
  "sum_prices ps = (case List.map_filter id ps of [] \<Rightarrow> None | x # xs \<Rightarrow> Some (sum_list (x # xs)))"

definition purchase_group ::
  "(event \<times> variant) list \<Rightarrow> date option \<times> string option \<times> string option \<Rightarrow> purchase_row" where
  "purchase_group efs k =
     (let g = filter (\<lambda>ef. purchase_key ef = k) efs in
      \<lparr>purchase_date = fst k,
       user_name = fst (snd k),
       purchase_data = snd (snd k),
       daily_purchase_amount = sum_prices (map (\<lambda>ef. iap_price (fst ef)) g)\<rparr>)"

text \<open>\<^verbatim>\<open>ORDER BY purchase_date\<close>: ascending, NULL dates last, stable.\<close>

definition order_by_purchase_date :: "purchase_row list \<Rightarrow> purchase_row list" where
  "order_by_purchase_date rows =
     sort_key (\<lambda>r. case purchase_date r of None \<Rightarrow> 0 | Some d \<Rightarrow> date_key d)
       (filter (\<lambda>r. purchase_date r \<noteq> None) rows)
     @ filter (\<lambda>r. purchase_date r = None) rows"

definition purchases_of :: "string \<Rightarrow> event list \<Rightarrow> purchase_row list" where
  "purchases_of ident es =
     (let matching = filter (purchase_where ident) (purchase_join es)
      in order_by_purchase_date (map (purchase_group matching) (remdups (map purchase_key matching))))"

section \<open>Engine and \<^verbatim>\<open>pd.read_sql\<close>\<close>

text \<open>
  An engine is an object; its number is its identity. The warehouse either fails every
  statement (unreachable, bad credentials) or answers from its table; \<open>rewritten\<close> is its
  answer to the statement text that an identifier with stray quote characters produces.
\<close>

datatype exn =
  Attribute_error
  | Warehouse_error string
  | JSON_decode_error
  | Not_a_mapping
  | Key_error
  | Out_of_bounds_datetime

datatype engine = Engine nat

datatype warehouse =
  Unreachable string
  | Online "event list" "string \<Rightarrow> exn + purchase_row list"

text \<open>
  \<^verbatim>\<open>pd.read_sql(query, engine)\<close>: raises when the engine is \<^verbatim>\<open>None\<close> and when the
  warehouse fails the statement; otherwise returns what the statement denotes on the table.
\<close>

definition read_sql ::
  "(event list \<Rightarrow> (string \<Rightarrow> exn + purchase_row list) \<Rightarrow> exn + 'r list) \<Rightarrow>
   engine option \<Rightarrow> warehouse \<Rightarrow> exn + 'r list" where
  "read_sql query eng wh =
     (case eng of
        None \<Rightarrow> Inl Attribute_error
      | Some _ \<Rightarrow>
          (case wh of
             Unreachable msg \<Rightarrow> Inl (Warehouse_error msg)
           | Online es rewritten \<Rightarrow> query es rewritten))"

definition load_data :: "engine option \<Rightarrow> warehouse \<Rightarrow> date \<Rightarrow> date \<Rightarrow> exn + city_stats list" where
  "load_data eng wh start_date end_date =
     read_sql (\<lambda>es rewritten. Inr (city_stats_query start_date end_date es)) eng wh"

definition user_purchase_query ::
  "string \<Rightarrow> event list \<Rightarrow> (string \<Rightarrow> exn + purchase_row list) \<Rightarrow> exn + purchase_row list" where
  "user_purchase_query user_id es rewritten =
     (case sql_unquote user_id of
        None \<Rightarrow> rewritten user_id
      | Some ident \<Rightarrow> Inr (purchases_of ident es))"

section \<open>\<^verbatim>\<open>json.loads\<close>\<close>

text \<open>
  The decoded values. A Python \<^verbatim>\<open>dict\<close> keeps its keys in insertion order, so an object is
  an association list; a number with a fraction or an exponent is a Python float and is
  kept as its text. Strings are byte strings (UTF-8).
\<close>

datatype json =
  J_null
  | J_bool bool
  | J_int int
  | J_float string
  | J_string string
  | J_array "json list"
  | J_object "(string \<times> json) list"

text \<open>\<^verbatim>\<open>d[k] = v\<close>: an existing key keeps its place and takes the new value, a new key goes last.\<close>

fun dict_set :: "('k \<times> 'v) list \<Rightarrow> 'k \<Rightarrow> 'v \<Rightarrow> ('k \<times> 'v) list" where
  "dict_set [] k v = [(k, v)]"
| "dict_set ((k', v') # d) k v = (if k' = k then (k, v) # d else (k', v') # dict_set d k v)"

subsection \<open>Scanning\<close>

text \<open>
  The text is cut into punctuation, string literals and atoms (numbers and the literal
  names) in one pass. Inside a string literal a \<^verbatim>\<open>\uXXXX\<close> escape is one UTF-16 unit; a high
  surrogate followed by a low one is a single code point. \<open>None\<close> is \<^verbatim>\<open>JSONDecodeError\<close>.
\<close>

datatype token =
  T_lbrace | T_rbrace | T_lbracket | T_rbracket | T_colon | T_comma
  | T_string string
  | T_atom string

datatype str_item = Byte char | Unit nat

definition utf8 :: "nat \<Rightarrow> string" where
  "utf8 n =
     (if n < 0x80 then [char_of n]
      else if n < 0x800 then [char_of (0xC0 + n div 64), char_of (0x80 + n mod 64)]
      else if n < 0x10000 then
        [char_of (0xE0 + n div 4096), char_of (0x80 + n div 64 mod 64), char_of (0x80 + n mod 64)]
      else
        [char_of (0xF0 + n div 262144), char_of (0x80 + n div 4096 mod 64),
         char_of (0x80 + n div 64 mod 64), char_of (0x80 + n mod 64)])"

fun decode_items :: "str_item list \<Rightarrow> string" where
  "decode_items [] = []"
| "decode_items (Byte c # r) = c # decode_items r"
| "decode_items (Unit h # Unit l # r) =
     (if 0xD800 \<le> h \<and> h < 0xDC00 \<and> 0xDC00 \<le> l \<and> l < 0xE000
      then utf8 (0x10000 + (h - 0xD800) * 1024 + (l - 0xDC00)) @ decode_items r
      else utf8 h @ decode_items (Unit l # r))"
| "decode_items (Unit h # r) = utf8 h @ decode_items r"

definition code :: "char \<Rightarrow> nat" where
  "code c = of_char c"

definition is_digit :: "char \<Rightarrow> bool" where
  "is_digit c = (48 \<le> code c \<and> code c \<le> 57)"

definition is_alpha :: "char \<Rightarrow> bool" where
  "is_alpha c = (65 \<le> code c \<and> code c \<le> 90 \<or> 97 \<le> code c \<and> code c \<le> 122)"

definition is_space :: "char \<Rightarrow> bool" where
  "is_space c = (code c = 32 \<or> code c = 9 \<or> code c = 10 \<or> code c = 13)"

definition atom_char :: "char \<Rightarrow> bool" where
  "atom_char c = (is_digit c \<or> is_alpha c \<or> c = CHR ''+'' \<or> c = CHR ''-'' \<or> c = CHR ''.'')"

definition punct :: "char \<Rightarrow> token option" where
  "punct c =
     (if c = CHR ''{'' then Some T_lbrace
      else if c = CHR ''}'' then Some T_rbrace
      else if c = CHR ''['' then Some T_lbracket
      else if c = CHR '']'' then Some T_rbracket
      else if c = CHR '':'' then Some T_colon
      else if c = CHR '','' then Some T_comma
      else None)"

definition escape :: "char \<Rightarrow> char option" where
  "escape c =
     (if c = CHR 0x22 \<or> c = CHR 0x5C \<or> c = CHR ''/'' then Some c
      else if c = CHR ''b'' then Some (CHR 0x08)
      else if c = CHR ''f'' then Some (CHR 0x0C)
      else if c = CHR ''n'' then Some (CHR 0x0A)
      else if c = CHR ''r'' then Some (CHR 0x0D)
      else if c = CHR ''t'' then Some (CHR 0x09)
      else None)"

definition hex_digit :: "char \<Rightarrow> nat option" where
  "hex_digit c =
     (if is_digit c then Some (code c - 48)
      else if 97 \<le> code c \<and> code c \<le> 102 then Some (code c - 87)
      else if 65 \<le> code c \<and> code c \<le> 70 then Some (code c - 55)
      else None)"

datatype lex_mode =
  Idle
  | In_atom string
  | In_string "str_item list"
  | In_escape "str_item list"
  | In_unicode "str_item list" nat nat

definition emit :: "token \<Rightarrow> token list option \<Rightarrow> token list option" where
  "emit t r = map_option (\<lambda>ts. t # ts) r"

fun scan :: "lex_mode \<Rightarrow> string \<Rightarrow> token list option" where
  "scan Idle [] = Some []"
| "scan (In_atom a) [] = Some [T_atom (rev a)]"
| "scan (In_string acc) [] = None"
| "scan (In_escape acc) [] = None"
| "scan (In_unicode acc k n) [] = None"
| "scan Idle (c # cs) =
     (if is_space c then scan Idle cs
      else if c = CHR 0x22 then scan (In_string []) cs
      else if atom_char c then scan (In_atom [c]) cs
      else (case punct c of None \<Rightarrow> None | Some t \<Rightarrow> emit t (scan Idle cs)))"
| "scan (In_atom a) (c # cs) =
     (if atom_char c then scan (In_atom (c # a)) cs
      else if is_space c then emit (T_atom (rev a)) (scan Idle cs)
      else if c = CHR 0x22 then emit (T_atom (rev a)) (scan (In_string []) cs)
      else (case punct c of None \<Rightarrow> None
            | Some t \<Rightarrow> emit (T_atom (rev a)) (emit t (scan Idle cs))))"
| "scan (In_string acc) (c # cs) =
     (if c = CHR 0x22 then emit (T_string (decode_items (rev acc))) (scan Idle cs)
      else if c = CHR 0x5C then scan (In_escape acc) cs
      else if code c < 32 then None
      else scan (In_string (Byte c # acc)) cs)"
| "scan (In_escape acc) (c # cs) =
     (if c = CHR ''u'' then scan (In_unicode acc 0 0) cs
      else (case escape c of None \<Rightarrow> None | Some e \<Rightarrow> scan (In_string (Byte e # acc)) cs))"
| "scan (In_unicode acc k n) (c # cs) =
     (case hex_digit c of
        None \<Rightarrow> None
      | Some h \<Rightarrow>
          (if k = 3 then scan (In_string (Unit (16 * n + h) # acc)) cs
           else scan (In_unicode acc (Suc k) (16 * n + h)) cs))"

subsection \<open>Numbers and literal names\<close>

text \<open>
  \<^verbatim>\<open>-?(0|[1-9][0-9]*)(\.[0-9]+)?([eE][-+]?[0-9]+)?\<close>; without fraction and exponent the
  number is an \<^verbatim>\<open>int\<close>. Python also accepts \<^verbatim>\<open>NaN\<close>, \<^verbatim>\<open>Infinity\<close> and \<^verbatim>\<open>-Infinity\<close>.
\<close>

definition all_digits :: "string \<Rightarrow> bool" where
  "all_digits s = (s \<noteq> [] \<and> list_all is_digit s)"

definition nat_of_digits :: "string \<Rightarrow> nat" where
  "nat_of_digits s = foldl (\<lambda>n c. 10 * n + (code c - 48)) 0 s"

definition exponent_ok :: "string \<Rightarrow> bool" where
  "exponent_ok s =
     (case s of
        [] \<Rightarrow> True
      | e # r \<Rightarrow>
          (e = CHR ''e'' \<or> e = CHR ''E'') \<and>
          (case r of
             [] \<Rightarrow> False
           | g # r' \<Rightarrow> if g = CHR ''+'' \<or> g = CHR ''-'' then all_digits r' else all_digits r))"

definition number :: "string \<Rightarrow> json option" where
  "number s =
     (let body = (case s of [] \<Rightarrow> [] | c # r \<Rightarrow> if c = CHR ''-'' then r else s);
          ip = takeWhile is_digit body;
          rest = dropWhile is_digit body
      in if ip = [] \<or> (hd ip = CHR ''0'' \<and> length ip > 1) then None
         else if rest = [] then
           Some (J_int (if body = s then int (nat_of_digits ip) else - int (nat_of_digits ip)))
         else if hd rest = CHR ''.'' then
           (if takeWhile is_digit (tl rest) \<noteq> [] \<and> exponent_ok (dropWhile is_digit (tl rest))
            then Some (J_float s) else None)
         else if exponent_ok rest then Some (J_float s) else None)"

definition atom :: "string \<Rightarrow> json option" where
  "atom a =
     (if a = ''null'' then Some J_null
      else if a = ''true'' then Some (J_bool True)
      else if a = ''false'' then Some (J_bool False)
      else if a = ''NaN'' \<or> a = ''Infinity'' \<or> a = ''-Infinity'' then Some (J_float a)
      else number a)"

subsection \<open>Parsing\<close>

text \<open>
  A pushdown automaton over the tokens: the stack holds the arrays and objects that are
  still open, \<open>expect\<close> says what may come next. A repeated key of an object keeps its first
  position and its last value, as a \<^verbatim>\<open>dict\<close> does.
\<close>

datatype container = Arr "json list" | Obj "(string \<times> json) list" | Obj_key "(string \<times> json) list" string

datatype expect =
  Value | Value_or_close | Key_or_close | Key | Colon | Comma_or_close | Done json

definition push_value :: "json \<Rightarrow> container list \<Rightarrow> (expect \<times> container list) option" where
  "push_value v st =
     (case st of
        [] \<Rightarrow> Some (Done v, [])
      | Arr xs # r \<Rightarrow> Some (Comma_or_close, Arr (v # xs) # r)
      | Obj_key d k # r \<Rightarrow> Some (Comma_or_close, Obj (dict_set d k v) # r)
      | Obj d # r \<Rightarrow> None)"

definition close_array :: "container list \<Rightarrow> (expect \<times> container list) option" where
  "close_array st = (case st of Arr xs # r \<Rightarrow> push_value (J_array (rev xs)) r | _ \<Rightarrow> None)"

definition close_object :: "container list \<Rightarrow> (expect \<times> container list) option" where
  "close_object st = (case st of Obj d # r \<Rightarrow> push_value (J_object d) r | _ \<Rightarrow> None)"

definition begin_value :: "token \<Rightarrow> container list \<Rightarrow> (expect \<times> container list) option" where
  "begin_value t st =
     (case t of
        T_lbrace \<Rightarrow> Some (Key_or_close, Obj [] # st)
      | T_lbracket \<Rightarrow> Some (Value_or_close, Arr [] # st)
      | T_string s \<Rightarrow> push_value (J_string s) st
      | T_atom a \<Rightarrow> (case atom a of None \<Rightarrow> None | Some v \<Rightarrow> push_value v st)
      | _ \<Rightarrow> None)"

definition begin_key :: "token \<Rightarrow> container list \<Rightarrow> (expect \<times> container list) option" where
  "begin_key t st =
     (case (t, st) of
        (T_string k, Obj d # r) \<Rightarrow> Some (Colon, Obj_key d k # r)
      | _ \<Rightarrow> None)"

definition step :: "expect \<Rightarrow> container list \<Rightarrow> token \<Rightarrow> (expect \<times> container list) option" where
  "step e st t =
     (case e of
        Value \<Rightarrow> begin_value t st
      | Value_or_close \<Rightarrow> if t = T_rbracket then close_array st else begin_value t st
      | Key_or_close \<Rightarrow> if t = T_rbrace then close_object st else begin_key t st
      | Key \<Rightarrow> begin_key t st
      | Colon \<Rightarrow> if t = T_colon then Some (Value, st) else None
      | Comma_or_close \<Rightarrow>
          (if t = T_rbracket then close_array st
           else if t = T_rbrace then close_object st
           else if t = T_comma then
             (case st of
                Arr xs # r \<Rightarrow> Some (Value, st)
              | Obj d # r \<Rightarrow> Some (Key, st)
              | _ \<Rightarrow> None)
           else None)
      | Done v \<Rightarrow> None)"

fun parse :: "expect \<Rightarrow> container list \<Rightarrow> token list \<Rightarrow> json option" where
  "parse e st [] = (case e of Done v \<Rightarrow> Some v | _ \<Rightarrow> None)"
| "parse e st (t # ts) = (case step e st t of None \<Rightarrow> None | Some (e', st') \<Rightarrow> parse e' st' ts)"

definition json_loads :: "string \<Rightarrow> exn + json" where
  "json_loads s =
     (case scan Idle s of
        None \<Rightarrow> Inl JSON_decode_error
      | Some ts \<Rightarrow>
          (case parse Value [] ts of
             None \<Rightarrow> Inl JSON_decode_error
           | Some v \<Rightarrow> Inr v))"

section \<open>\<^verbatim>\<open>DataFrame.nlargest\<close>\<close>

text \<open>
  \<^verbatim>\<open>data.nlargest(10, 'number_of_users')\<close>: the first \<open>n\<close> rows in descending order of
  the column, rows with equal values in their original order (\<^verbatim>\<open>keep='first'\<close>).
\<close>

definition nlargest :: "nat \<Rightarrow> ('r \<Rightarrow> nat) \<Rightarrow> 'r list \<Rightarrow> 'r list" where
  "nlargest n col df = take n (sort_key (\<lambda>r. - int (col r)) df)"

section \<open>The purchase-detail table\<close>

text \<open>
  A data frame is its columns in order, each with its cells, one per row. A cell holds a
  decoded JSON value, a date or a string of the query result, or nothing (\<^verbatim>\<open>NaN\<close>,
  \<^verbatim>\<open>None\<close>, \<^verbatim>\<open>NaT\<close>).
\<close>

datatype cell = Missing | Of_json json | Date date | Text string

type_synonym dataframe = "(string \<times> cell list) list"

definition bind_exn :: "exn + 'a \<Rightarrow> ('a \<Rightarrow> exn + 'b) \<Rightarrow> exn + 'b" where
  "bind_exn m f = (case m of Inl e \<Rightarrow> Inl e | Inr x \<Rightarrow> f x)"

text \<open>\<^verbatim>\<open>results['purchase_data'].apply(lambda x: json.loads(x) if x else {})\<close>\<close>

definition decode_payload :: "string option \<Rightarrow> exn + json" where
  "decode_payload x =
     (case x of
        None \<Rightarrow> Inr (J_object [])
      | Some s \<Rightarrow> if s = [] then Inr (J_object []) else json_loads s)"

fun apply_decode :: "string option list \<Rightarrow> exn + json list" where
  "apply_decode [] = Inr []"
| "apply_decode (x # xs) =
     bind_exn (decode_payload x) (\<lambda>v. bind_exn (apply_decode xs) (\<lambda>vs. Inr (v # vs)))"

text \<open>
  \<^verbatim>\<open>pd.DataFrame(records)\<close> on a list of dicts: the columns are the keys in the order in
  which they are first seen, and a record without a key has a missing cell there. What
  pandas does with records that are not all mappings is outside this model
  (\<open>Not_a_mapping\<close>): the warehouse column holds JSON objects.
\<close>

fun as_records :: "json list \<Rightarrow> (string \<times> json) list list option" where
  "as_records [] = Some []"
| "as_records (J_object d # vs) = map_option (\<lambda>ds. d # ds) (as_records vs)"
| "as_records (v # vs) = None"

definition first_seen :: "'a list \<Rightarrow> 'a list" where
  "first_seen xs = foldl (\<lambda>seen x. if x \<in> set seen then seen else seen @ [x]) [] xs"

definition union_keys :: "(string \<times> json) list list \<Rightarrow> string list" where
  "union_keys ds = first_seen (concat (map (map fst) ds))"

definition record_cell :: "string \<Rightarrow> (string \<times> json) list \<Rightarrow> cell" where
  "record_cell k d = (case map_of d k of None \<Rightarrow> Missing | Some v \<Rightarrow> Of_json v)"

definition from_records :: "(string \<times> json) list list \<Rightarrow> dataframe" where
  "from_records ds = map (\<lambda>k. (k, map (record_cell k) ds)) (union_keys ds)"

definition DataFrame :: "json list \<Rightarrow> exn + dataframe" where
  "DataFrame data =
     (case as_records data of None \<Rightarrow> Inl Not_a_mapping | Some ds \<Rightarrow> Inr (from_records ds))"

text \<open>\<^verbatim>\<open>df[cols]\<close>: the named columns in the order given; a missing name raises.\<close>

fun select_columns :: "dataframe \<Rightarrow> string list \<Rightarrow> exn + dataframe" where
  "select_columns df [] = Inr []"
| "select_columns df (c # cs) =
     (case map_of df c of
        None \<Rightarrow> Inl Key_error
      | Some col \<Rightarrow> bind_exn (select_columns df cs) (\<lambda>r. Inr ((c, col) # r)))"

text \<open>
  \<^verbatim>\<open>pd.to_datetime(col).dt.strftime('%Y-%m-%d')\<close>: a date outside the range of a
  nanosecond timestamp raises; a missing date stays missing.
\<close>

definition digit :: "nat \<Rightarrow> char" where
  "digit n = char_of (48 + n mod 10)"

definition strftime :: "date \<Rightarrow> string" where
  "strftime d =
     [digit (year d div 1000), digit (year d div 100), digit (year d div 10), digit (year d),
      CHR ''-'', digit (month d div 10), digit (month d),
      CHR ''-'', digit (day d div 10), digit (day d)]"

definition in_timestamp_range :: "date \<Rightarrow> bool" where
  "in_timestamp_range d = (16770922 \<le> date_key d \<and> date_key d \<le> 22620411)"

fun format_dates :: "cell list \<Rightarrow> exn + cell list" where
  "format_dates [] = Inr []"
| "format_dates (Date d # cs) =
     (if in_timestamp_range d
      then bind_exn (format_dates cs) (\<lambda>r. Inr (Text (strftime d) # r))
      else Inl Out_of_bounds_datetime)"
| "format_dates (c # cs) = bind_exn (format_dates cs) (\<lambda>r. Inr (Missing # r))"

definition date_cell :: "date option \<Rightarrow> cell" where
  "date_cell d = (case d of None \<Rightarrow> Missing | Some x \<Rightarrow> Date x)"

definition text_cell :: "string option \<Rightarrow> cell" where
  "text_cell s = (case s of None \<Rightarrow> Missing | Some x \<Rightarrow> Text x)"

text \<open>
  Lines 163 to 177 of \<^verbatim>\<open>main\<close>: decode the payloads, build the frame, assign the two
  fixed columns, move them to the front, format the date.
\<close>

definition fixed_columns :: "string list" where
  "fixed_columns = [''purchase_date'', ''user_name'']"

definition with_fixed_columns :: "purchase_row list \<Rightarrow> dataframe \<Rightarrow> dataframe" where
  "with_fixed_columns results df =
     dict_set
       (dict_set df ''purchase_date'' (map (\<lambda>r. date_cell (purchase_date r)) results))
       ''user_name'' (map (\<lambda>r. text_cell (user_name r)) results)"

definition front_columns :: "dataframe \<Rightarrow> string list" where
  "front_columns df = fixed_columns @ filter (\<lambda>col. col \<notin> set fixed_columns) (map fst df)"

definition detail_table :: "purchase_row list \<Rightarrow> exn + dataframe" where
  "detail_table results =
     bind_exn (apply_decode (map purchase_data results)) (\<lambda>purchase_details.
     bind_exn (DataFrame purchase_details) (\<lambda>purchase_details_df.
       (let df = with_fixed_columns results purchase_details_df in
        bind_exn (select_columns df (front_columns df)) (\<lambda>ordered.
          (case map_of ordered ''purchase_date'' of
             None \<Rightarrow> Inl Key_error
           | Some col \<Rightarrow>
               bind_exn (format_dates col) (\<lambda>dates.
                 Inr (dict_set ordered ''purchase_date'' dates)))))))"

section \<open>Column configuration\<close>

text \<open>ASCII case mapping, \<^verbatim>\<open>str.replace('_', ' ')\<close>, \<^verbatim>\<open>str.title\<close> and \<^verbatim>\<open>term in s\<close>.\<close>

definition lower_char :: "char \<Rightarrow> char" where
  "lower_char c = (if 65 \<le> code c \<and> code c \<le> 90 then char_of (code c + 32) else c)"

definition upper_char :: "char \<Rightarrow> char" where
  "upper_char c = (if 97 \<le> code c \<and> code c \<le> 122 then char_of (code c - 32) else c)"

definition lower :: "string \<Rightarrow> string" where
  "lower s = map lower_char s"

definition underscores_to_spaces :: "string \<Rightarrow> string" where
  "underscores_to_spaces s = map (\<lambda>c. if c = CHR ''_'' then CHR '' '' else c) s"

fun title_from :: "bool \<Rightarrow> string \<Rightarrow> string" where
  "title_from prev_cased [] = []"
| "title_from prev_cased (c # cs) =
     (if is_alpha c
      then (if prev_cased then lower_char c else upper_char c) # title_from True cs
      else c # title_from False cs)"

definition title :: "string \<Rightarrow> string" where
  "title s = title_from False s"

fun starts_with :: "string \<Rightarrow> string \<Rightarrow> bool" where
  "starts_with [] s = True"
| "starts_with (p # ps) [] = False"
| "starts_with (p # ps) (c # cs) = (p = c \<and> starts_with ps cs)"

fun contains :: "string \<Rightarrow> string \<Rightarrow> bool" where
  "contains term [] = (term = [])"
| "contains term (c # cs) = (starts_with term (c # cs) \<or> contains term cs)"

datatype column_cfg = Label string | Number_column string string

text \<open>
  \<^verbatim>\<open>price_columns = [col for col in purchase_details_df.columns
       if any(term in col.lower() for term in ['price', 'amount'])]\<close>
\<close>

definition is_price_column :: "string \<Rightarrow> bool" where
  "is_price_column col = list_ex (\<lambda>term. contains term (lower col)) [''price'', ''amount'']"

definition price_columns :: "dataframe \<Rightarrow> string list" where
  "price_columns df = filter is_price_column (map fst df)"

definition number_column :: "string \<Rightarrow> column_cfg" where
  "number_column col = Number_column (title (underscores_to_spaces col)) ''$.2f''"

definition column_config :: "dataframe \<Rightarrow> (string \<times> column_cfg) list" where
  "column_config df =
     foldl (\<lambda>cfg col. dict_set cfg col (number_column col))
       [(''purchase_date'', Label ''Date''), (''user_name'', Label ''User Name'')]
       (price_columns df)"

text \<open>
  The \<^verbatim>\<open>format\<close> of a \<^verbatim>\<open>NumberColumn\<close> is a printf-style format string: its text is
  copied to the cell up to the first \<^verbatim>\<open>%\<close>, where the conversion of the number starts.
  How a conversion writes the number (\<open>conv\<close>, floating point) is left open.
\<close>

fun sprintf :: "(string \<Rightarrow> 'v \<Rightarrow> string) \<Rightarrow> string \<Rightarrow> 'v \<Rightarrow> string" where
  "sprintf conv [] v = []"
| "sprintf conv (c # cs) v = (if c = CHR ''%'' then conv cs v else c # sprintf conv cs v)"

section \<open>The page: \<^verbatim>\<open>main\<close>\<close>

text \<open>
  What a run of the script renders, in order, each element with the view it is rendered
  in. A chart is its kind and the table it is drawn from; the correlation metric is the
  table it is computed from (floating point).
\<close>

datatype chart =
  Scatter "city_stats list"
  | Bar_top_cities "city_stats list"
  | Corr_matrix "city_stats list"
  | Bar_daily_purchases "purchase_row list" string

datatype element =
  Title string
  | Tabs "string list"
  | Header string
  | Columns nat
  | Date_input string
  | Button string
  | Text_input string
  | Subheader string
  | Plotly_chart chart
  | Metric string "city_stats list"
  | Write string
  | Warning string
  | Error string exn
  | Dataframe dataframe "(string \<times> column_cfg) list"

datatype view = Page | General_Statistics | Events

record ui_input =
  start_date_input :: date
  end_date_input :: date
  run_button :: bool
  user_id_input :: string

text \<open>
  The General Statistics tab (lines 70 to 113). Nothing catches an exception of
  \<^verbatim>\<open>load_data\<close> here: it leaves the tab, with what was rendered before it.
\<close>

definition general_statistics ::
  "engine option \<Rightarrow> warehouse \<Rightarrow> ui_input \<Rightarrow> element list \<times> exn option" where
  "general_statistics eng wh inp =
     (let head = [Header ''General Statistics'', Columns 2, Date_input ''Start Date'',
                  Date_input ''End Date'', Button ''Run'']
      in if run_button inp then
           (case load_data eng wh (start_date_input inp) (end_date_input inp) of
              Inl e \<Rightarrow> (head, Some e)
            | Inr data \<Rightarrow>
                (if data \<noteq> [] then
                   (head @
                    [Subheader ''Distribution of Users and Purchases by City'',
                     Plotly_chart (Scatter data),
                     Subheader ''Top 10 Cities by Number of Users'',
                     Plotly_chart (Bar_top_cities (nlargest 10 number_of_users data)),
                     Subheader ''Correlation Matrix'',
                     Plotly_chart (Corr_matrix data),
                     Metric ''Correlation between Number of Users and Total Purchases'' data],
                    None)
                 else (head @ [Write ''No data available for the selected date range.''], None)))
         else (head, None))"

text \<open>
  The Events tab (lines 116 to 205). Everything after the text input runs inside
  \<^verbatim>\<open>try: ... except Exception as e: st.error(f"Error executing query: {str(e)}")\<close>.
\<close>

definition str_of :: "string option \<Rightarrow> string" where
  "str_of s = (case s of None \<Rightarrow> ''None'' | Some x \<Rightarrow> x)"

definition events :: "engine option \<Rightarrow> warehouse \<Rightarrow> ui_input \<Rightarrow> element list" where
  "events eng wh inp =
     (let head = [Header ''Events'', Text_input ''Enter User ID'']
      in if user_id_input inp \<noteq> [] then
           (case read_sql (user_purchase_query (user_id_input inp)) eng wh of
              Inl e \<Rightarrow> head @ [Error ''Error executing query: '' e]
            | Inr results \<Rightarrow>
                (case results of
                   [] \<Rightarrow> head @ [Warning ''No purchase data found for this user ID.'']
                 | first # others \<Rightarrow>
                     (let name = str_of (user_name first);
                          summary =
                            [Subheader (''Purchase Data for User: '' @ name),
                             Plotly_chart
                               (Bar_daily_purchases results (''Daily Purchase Amounts for '' @ name))]
                      in case detail_table results of
                           Inl e \<Rightarrow> head @ summary @ [Error ''Error executing query: '' e]
                         | Inr df \<Rightarrow>
                             head @ summary @
                             [Subheader ''Detailed Purchase Information'',
                              Dataframe df (column_config df)])))
         else head)"

section \<open>\<^verbatim>\<open>init_connection\<close> under \<^verbatim>\<open>st.cache_resource\<close>\<close>

text \<open>
  \<^verbatim>\<open>os.getenv\<close> gives \<^verbatim>\<open>None\<close> for a variable that is not set. \<open>driver\<close> is the exception
  that \<^verbatim>\<open>create_engine(URL(...))\<close> raises on the parameters, if any. The body of
  \<^verbatim>\<open>init_connection\<close> catches it, reports it and returns \<^verbatim>\<open>None\<close>.
\<close>

record snowflake_params =
  account :: "string option"
  user :: "string option"
  password :: "string option"
  warehouse_name :: "string option"
  database :: "string option"
  schema :: "string option"

definition init_connection_body ::
  "(snowflake_params \<Rightarrow> exn option) \<Rightarrow> snowflake_params \<Rightarrow> nat \<Rightarrow> engine option \<times> element list" where
  "init_connection_body driver params fresh =
     (case driver params of
        None \<Rightarrow> (Some (Engine fresh), [])
      | Some e \<Rightarrow> (None, [Error ''Error connecting to Snowflake: '' e]))"

text \<open>
  The decorator keeps one entry for the function (it has no arguments) for the life of
  the process: the first call runs the body and stores what it returned together with
  the elements it rendered; every later call returns the stored value and renders the
  stored elements again, without running the body. \<open>constructions\<close> counts the runs of
  the body.
\<close>

record process =
  cache :: "(engine option \<times> element list) option"
  constructions :: nat

definition init_connection ::
  "(snowflake_params \<Rightarrow> exn option) \<Rightarrow> snowflake_params \<Rightarrow> process \<Rightarrow>
   (engine option \<times> element list) \<times> process" where
  "init_connection driver params p =
     (case cache p of
        Some stored \<Rightarrow> (stored, p)
      | None \<Rightarrow>
          (let r = init_connection_body driver params (constructions p)
           in (r, \<lparr>cache = Some r, constructions = Suc (constructions p)\<rparr>)))"

fun init_connection_calls ::
  "nat \<Rightarrow> (snowflake_params \<Rightarrow> exn option) \<Rightarrow> snowflake_params \<Rightarrow> process \<Rightarrow>
   engine option list \<times> process" where
  "init_connection_calls 0 driver params p = ([], p)"
| "init_connection_calls (Suc n) driver params p =
     (let (r, p') = init_connection driver params p;
          (rs, p'') = init_connection_calls n driver params p'
      in (fst r # rs, p''))"

definition fresh_process :: process where
  "fresh_process = \<lparr>cache = None, constructions = 0\<rparr>"

text \<open>One run of the script.\<close>

record outcome =
  rendered :: "(view \<times> element) list"
  uncaught :: "exn option"

definition main ::
  "(snowflake_params \<Rightarrow> exn option) \<Rightarrow> snowflake_params \<Rightarrow> warehouse \<Rightarrow> ui_input \<Rightarrow> process \<Rightarrow>
   outcome \<times> process" where
  "main driver params wh inp p =
     (let (conn, p') = init_connection driver params p;
          engine = fst conn;
          top = map (Pair Page)
                  ([Title ''Match Masters Analysis'', Tabs [''General Statistics'', ''Events'']]
                   @ snd conn);
          tab1 = general_statistics engine wh inp
      in case snd tab1 of
           Some e \<Rightarrow>
             (\<lparr>rendered = top @ map (Pair General_Statistics) (fst tab1), uncaught = Some e\<rparr>, p')
         | None \<Rightarrow>
             (\<lparr>rendered = top @ map (Pair General_Statistics) (fst tab1)
                          @ map (Pair Events) (events engine wh inp),
               uncaught = None\<rparr>, p'))"

section \<open>Sample data\<close>

text \<open>A small table, used to run the definitions on concrete inputs.\<close>

definition ev :: "string \<Rightarrow> nat \<Rightarrow> string \<Rightarrow> string \<Rightarrow> event" where
  "ev c d u n =
     \<lparr>geo_city = Some c,
      derived_tstamp = Some \<lparr>ts_date = \<lparr>year = 2024, month = 3, day = d\<rparr>, ts_secs = 0\<rparr>,
      event_name = Some n,
      user_base_stats = Some (V_object \<lparr>ctx_uuid = Some u, ctx_user_name = None\<rparr>),
      in_app_purchase = None,
      iap_price = None\<rparr>"

definition sample_events :: "event list" where
  "sample_events =
     [ev ''Haifa'' 2 ''u1'' ''login'',
      ev ''Eilat'' 3 ''u2'' ''in_app_purchase'',
      ev ''Eilat'' 4 ''u3'' ''login'',
      ev ''Eilat'' 9 ''u4'' ''login'']"

definition no_rewrite :: "string \<Rightarrow> exn + purchase_row list" where
  "no_rewrite text = Inl (Warehouse_error ''SQL compilation error'')"

definition mar :: "nat \<Rightarrow> date" where
  "mar d = \<lparr>year = 2024, month = 3, day = d\<rparr>"

definition sample_stats :: "city_stats list" where
  "sample_stats =
     [\<lparr>city = Some ''Eilat'', number_of_users = 2, number_of_purchases = 1\<rparr>,
      \<lparr>city = Some ''Haifa'', number_of_users = 1, number_of_purchases = 0\<rparr>]"

definition sample_params :: snowflake_params where
  "sample_params =
     \<lparr>account = Some ''acme'', user = Some ''reader'', password = Some ''secret'',
      warehouse_name = Some ''WH'', database = Some ''CANDIVORE_TEST_DB'', schema = Some ''ATOMIC''\<rparr>"

definition driver_ok :: "snowflake_params \<Rightarrow> exn option" where
  "driver_ok params = None"

definition sample_input :: ui_input where
  "sample_input =
     \<lparr>start_date_input = mar 2, end_date_input = mar 5, run_button = True,
      user_id_input = ''ghost''\<rparr>"

text \<open>The payloads of the sample purchases; \<open>quoted\<close> puts a name between double quotes.\<close>

definition quoted :: "string \<Rightarrow> string" where
  "quoted s = CHR 0x22 # s @ [CHR 0x22]"

definition gems_payload :: string where
  "gems_payload =
     ''{'' @ quoted ''sku'' @ '': '' @ quoted ''gems'' @ '', '' @ quoted ''iap_price'' @ '': 4.99}''"

definition clash_payload :: string where
  "clash_payload =
     ''{'' @ quoted ''user_name'' @ '': '' @ quoted ''mallory'' @ '', '' @ quoted ''coins'' @ '': 100}''"

definition malformed_payload :: string where
  "malformed_payload = ''{bad''"

definition gems_price :: real where
  "gems_price = 4.99"

definition purchase_event :: "nat \<Rightarrow> string \<Rightarrow> real option \<Rightarrow> event" where
  "purchase_event d payload price =
     \<lparr>geo_city = Some ''Eilat'',
      derived_tstamp = Some \<lparr>ts_date = mar d, ts_secs = 0\<rparr>,
      event_name = Some ''in_app_purchase'',
      user_base_stats =
        Some (V_array [V_object \<lparr>ctx_uuid = Some ''u7'', ctx_user_name = Some ''dana''\<rparr>]),
      in_app_purchase = Some payload,
      iap_price = price\<rparr>"

definition purchase_result :: "nat \<Rightarrow> string \<Rightarrow> real option \<Rightarrow> purchase_row" where
  "purchase_result d payload price =
     \<lparr>purchase_date = Some (mar d), user_name = Some ''dana'', purchase_data = Some payload,
      daily_purchase_amount = price\<rparr>"

definition dana_input :: ui_input where
  "dana_input =
     \<lparr>start_date_input = mar 2, end_date_input = mar 5, run_button = False,
      user_id_input = ''u7''\<rparr>"

text \<open>An identifier with a quote character, and one that no event carries.\<close>

definition quote_id :: string where
  "quote_id = [CHR ''o'', CHR 0x27, CHR ''b'']"

definition quote_input :: ui_input where
  "quote_input =
     \<lparr>start_date_input = mar 2, end_date_input = mar 5, run_button = False,
      user_id_input = quote_id\<rparr>"

definition ghost_input :: ui_input where
  "ghost_input =
     \<lparr>start_date_input = mar 2, end_date_input = mar 5, run_button = False,
      user_id_input = ''ghost''\<rparr>"

text \<open>
  The frame after lines 169 to 174 of \<^verbatim>\<open>main\<close>, written out: the fixed columns assigned,
  then the columns selected in their new order.
\<close>

definition arranged :: "purchase_row list \<Rightarrow> dataframe \<Rightarrow> dataframe" where
  "arranged results df0 =
     map (\<lambda>c. (c, the (map_of (with_fixed_columns results df0) c)))
       (front_columns (with_fixed_columns results df0))"

section \<open>Properties of the city-statistics query\<close>

lemma order_by_users_desc_sorted:
  "sorted (map (\<lambda>r. - int (number_of_users r)) (order_by_users_desc rows))"
  by (simp add: order_by_users_desc_def)

lemma sorted_neg_iff:
  "sorted (map (\<lambda>r. - int (f r)) xs) = sorted_wrt (\<lambda>a b. f b \<le> f a) xs"
  by (induction xs) auto

lemma city_stats_query_length: "length (city_stats_query s e es) \<le> 10"
  by (simp add: city_stats_query_def Let_def)

lemma city_stats_query_sorted:
  "sorted (map (\<lambda>r. - int (number_of_users r)) (city_stats_query s e es))"
  unfolding city_stats_query_def Let_def
  by (simp add: take_map [symmetric] sorted_wrt_take order_by_users_desc_sorted)

lemma load_data_Inr:
  "load_data eng wh s e = Inr rows \<Longrightarrow> \<exists>es rw. wh = Online es rw \<and> rows = city_stats_query s e es"
  by (auto simp: load_data_def read_sql_def split: option.splits warehouse.splits)

text \<open>
  C1. Every sequence that \<^verbatim>\<open>load_data\<close> returns has at most 10 rows and is
  non-increasing in \<open>number_of_users\<close>.
\<close>

theorem load_data_top10_sorted:
  assumes "load_data eng wh start_date end_date = Inr rows"
  shows "length rows \<le> 10 \<and> sorted_wrt (\<lambda>a b. number_of_users b \<le> number_of_users a) rows"
proof -
  from assms obtain es where r: "rows = city_stats_query start_date end_date es"
    using load_data_Inr by blast
  have "length rows \<le> 10"
    by (simp add: r city_stats_query_length)
  moreover have "sorted_wrt (\<lambda>a b. number_of_users b \<le> number_of_users a) rows"
    using city_stats_query_sorted [of start_date end_date es]
    by (simp add: r sorted_neg_iff)
  ultimately show ?thesis by simp
qed

lemma sample_where:
  "filter (city_where (mar 2) (mar 5)) sample_events =
     [ev ''Haifa'' 2 ''u1'' ''login'', ev ''Eilat'' 3 ''u2'' ''in_app_purchase'',
      ev ''Eilat'' 4 ''u3'' ''login'']"
  by (simp add: sample_events_def ev_def mar_def city_where_def between_def ts_key_def
      midnight_def date_key_def)

lemma sample_cities:
  "remdups (map geo_city [ev ''Haifa'' 2 ''u1'' ''login'', ev ''Eilat'' 3 ''u2'' ''in_app_purchase'',
      ev ''Eilat'' 4 ''u3'' ''login'']) = [Some ''Haifa'', Some ''Eilat'']"
  by (simp add: ev_def)

lemma sample_group_Haifa:
  "city_group [ev ''Haifa'' 2 ''u1'' ''login'', ev ''Eilat'' 3 ''u2'' ''in_app_purchase'',
      ev ''Eilat'' 4 ''u3'' ''login''] (Some ''Haifa'') =
     \<lparr>city = Some ''Haifa'', number_of_users = 1, number_of_purchases = 0\<rparr>"
  by (simp add: ev_def city_group_def path_uuid_def List.map_filter_def)

lemma sample_group_Eilat:
  "city_group [ev ''Haifa'' 2 ''u1'' ''login'', ev ''Eilat'' 3 ''u2'' ''in_app_purchase'',
      ev ''Eilat'' 4 ''u3'' ''login''] (Some ''Eilat'') =
     \<lparr>city = Some ''Eilat'', number_of_users = 2, number_of_purchases = 1\<rparr>"
  by (simp add: ev_def city_group_def path_uuid_def List.map_filter_def)

lemma sample_query: "city_stats_query (mar 2) (mar 5) sample_events = sample_stats"
proof -
  have "city_stats_query (mar 2) (mar 5) sample_events =
      take 10 (order_by_users_desc
        [\<lparr>city = Some ''Haifa'', number_of_users = 1, number_of_purchases = 0\<rparr>,
         \<lparr>city = Some ''Eilat'', number_of_users = 2, number_of_purchases = 1\<rparr>])"
    unfolding city_stats_query_def Let_def sample_where sample_cities
    by (simp only: list.map sample_group_Haifa sample_group_Eilat)
  then show ?thesis
    by (simp add: order_by_users_desc_def sample_stats_def)
qed

lemma sample_load_data:
  "load_data (Some (Engine 0)) (Online sample_events no_rewrite) (mar 2) (mar 5) = Inr sample_stats"
  by (simp add: load_data_def read_sql_def sample_query)

theorem load_data_top10_sorted_witness:
  "load_data (Some (Engine 0)) (Online sample_events no_rewrite) (mar 2) (mar 5) = Inr sample_stats \<and>
   length sample_stats \<le> 10 \<and>
   sorted_wrt (\<lambda>a b. number_of_users b \<le> number_of_users a) sample_stats"
  using load_data_top10_sorted [OF sample_load_data] sample_load_data by simp

lemma city_where_reversed:
  "date_less end_date start_date \<Longrightarrow> filter (city_where start_date end_date) es = []"
  by (auto simp: city_where_def between_def date_less_def ts_key_def midnight_def
      filter_empty_conv split: option.splits)

lemma city_stats_query_reversed:
  "date_less end_date start_date \<Longrightarrow> city_stats_query start_date end_date es = []"
  by (simp add: city_stats_query_def city_where_reversed order_by_users_desc_def)

text \<open>
  C6. For a date range with \<open>start_date > end_date\<close> the code has no validation step:
  the statement is sent as it is, no event lies in the range, and \<^verbatim>\<open>load_data\<close> returns an
  empty result without raising whenever the warehouse executes the statement. The only
  exceptions \<^verbatim>\<open>load_data\<close> can raise are those of the connection, whatever the dates.
\<close>

theorem load_data_reversed_range_empty:
  assumes "date_less end_date start_date"
  shows "load_data (Some eng) (Online es rw) start_date end_date = Inr [] \<and>
         (\<forall>e wh rows. load_data e wh start_date end_date = Inr rows \<longrightarrow> rows = []) \<and>
         (\<forall>e wh x. load_data e wh start_date end_date = Inl x \<longrightarrow>
            e = None \<or> (\<exists>msg. wh = Unreachable msg))"
proof -
  have q: "\<And>es. city_stats_query start_date end_date es = []"
    using assms by (rule city_stats_query_reversed)
  have "load_data (Some eng) (Online es rw) start_date end_date = Inr []"
    by (simp add: load_data_def read_sql_def q)
  moreover have "\<forall>e wh rows. load_data e wh start_date end_date = Inr rows \<longrightarrow> rows = []"
    using q load_data_Inr by fastforce
  moreover have "\<forall>e wh x. load_data e wh start_date end_date = Inl x \<longrightarrow>
      e = None \<or> (\<exists>msg. wh = Unreachable msg)"
    by (auto simp: load_data_def read_sql_def split: option.splits warehouse.splits)
  ultimately show ?thesis by blast
qed

theorem load_data_reversed_range_empty_witness:
  "date_less (mar 2) (mar 5) \<and>
   load_data (Some (Engine 0)) (Online sample_events no_rewrite) (mar 5) (mar 2) = Inr []"
proof -
  have h: "date_less (mar 2) (mar 5)"
    by (simp add: date_less_def date_key_def mar_def)
  show ?thesis
    using h load_data_reversed_range_empty [OF h, of "Engine 0" sample_events no_rewrite] by simp
qed

lemma nlargest_sorted_id:
  "length df \<le> n \<Longrightarrow> sorted (map (\<lambda>r. - int (col r)) df) \<Longrightarrow> nlargest n col df = df"
  by (simp add: nlargest_def sort_key_id_if_sorted)

text \<open>
  C9. The bar chart's \<^verbatim>\<open>data.nlargest(10, 'number_of_users')\<close> is redundant: on every
  table that \<^verbatim>\<open>load_data\<close> returns it gives back the table itself, same rows in the same
  order.
\<close>

theorem nlargest_of_load_data_redundant:
  assumes "load_data eng wh start_date end_date = Inr data"
  shows "nlargest 10 number_of_users data = data"
proof -
  from assms obtain es where r: "data = city_stats_query start_date end_date es"
    using load_data_Inr by blast
  show ?thesis
    unfolding r
    by (rule nlargest_sorted_id) (rule city_stats_query_length, rule city_stats_query_sorted)
qed

theorem nlargest_of_load_data_redundant_witness:
  "load_data (Some (Engine 0)) (Online sample_events no_rewrite) (mar 2) (mar 5) = Inr sample_stats \<and>
   nlargest 10 number_of_users sample_stats = sample_stats"
  using nlargest_of_load_data_redundant [OF sample_load_data] sample_load_data by simp

section \<open>Properties of the memoised connection\<close>

lemma init_connection_hit:
  "cache p = Some stored \<Longrightarrow> init_connection driver params p = (stored, p)"
  by (simp add: init_connection_def)

lemma init_connection_stores:
  "init_connection driver params p = (r, p') \<Longrightarrow> cache p' = Some r"
  by (auto simp: init_connection_def Let_def split: option.splits)

lemma init_connection_calls_hit:
  "cache p = Some stored \<Longrightarrow>
   init_connection_calls n driver params p = (replicate n (fst stored), p)"
  by (induction n) (simp_all add: init_connection_hit)

text \<open>
  C8. Once a call of \<^verbatim>\<open>init_connection\<close> has returned an engine, every later call, however
  many, returns that same engine and leaves the process as it is: the body is not run
  again and no other engine is built. The call that built it ran the body at most once.
\<close>

theorem init_connection_memoized:
  assumes "init_connection driver params p = ((Some e, shown), p')"
  shows "init_connection_calls n driver params p' = (replicate n (Some e), p') \<and>
         constructions p' \<le> Suc (constructions p)"
proof -
  have "cache p' = Some (Some e, shown)"
    using assms by (rule init_connection_stores)
  then have "init_connection_calls n driver params p' = (replicate n (Some e), p')"
    using init_connection_calls_hit [of p' "(Some e, shown)" n driver params] by simp
  moreover have "constructions p' \<le> Suc (constructions p)"
    using assms by (auto simp: init_connection_def Let_def split: option.splits)
  ultimately show ?thesis by simp
qed

lemma sample_first_call:
  "init_connection driver_ok sample_params fresh_process =
     ((Some (Engine 0), []), \<lparr>cache = Some (Some (Engine 0), []), constructions = 1\<rparr>)"
  by (simp add: init_connection_def init_connection_body_def driver_ok_def fresh_process_def Let_def)

theorem init_connection_memoized_witness:
  "init_connection driver_ok sample_params fresh_process =
     ((Some (Engine 0), []), \<lparr>cache = Some (Some (Engine 0), []), constructions = 1\<rparr>) \<and>
   init_connection_calls 3 driver_ok sample_params
       \<lparr>cache = Some (Some (Engine 0), []), constructions = 1\<rparr> =
     ([Some (Engine 0), Some (Engine 0), Some (Engine 0)],
      \<lparr>cache = Some (Some (Engine 0), []), constructions = 1\<rparr>)"
  using init_connection_memoized [OF sample_first_call, of 3] sample_first_call
  by (simp add: numeral_3_eq_3)

text \<open>From a fresh process, any number of calls runs the body exactly once.\<close>

lemma one_construction_per_process:
  "constructions (snd (init_connection_calls (Suc n) driver params fresh_process)) = 1"
proof -
  obtain r p' where c: "init_connection driver params fresh_process = (r, p')"
    by (cases "init_connection driver params fresh_process")
  have k: "cache p' = Some r" using c by (rule init_connection_stores)
  have "constructions p' = 1"
    using c by (auto simp: init_connection_def Let_def fresh_process_def)
  then show ?thesis
    by (simp add: c init_connection_calls_hit [OF k])
qed

section \<open>Errors of the warehouse in the two views\<close>

text \<open>
  The Events view turns every exception of its query into an error message of its own
  and ends normally (\<open>events\<close> has no exception to return).
\<close>

lemma events_query_error:
  assumes "user_id_input inp \<noteq> []"
      and "read_sql (user_purchase_query (user_id_input inp)) eng wh = Inl e"
  shows "events eng wh inp =
           [Header ''Events'', Text_input ''Enter User ID'', Error ''Error executing query: '' e]"
  using assms by (simp add: events_def)

text \<open>
  The General Statistics view does not: an exception of \<^verbatim>\<open>load_data\<close> leaves the view,
  and no error message is among the elements rendered.
\<close>

lemma general_statistics_raises:
  assumes "run_button inp"
      and "load_data eng wh (start_date_input inp) (end_date_input inp) = Inl e"
  shows "snd (general_statistics eng wh inp) = Some e \<and>
         (\<forall>text x. Error text x \<notin> set (fst (general_statistics eng wh inp)))"
  using assms by (auto simp: general_statistics_def)

lemma main_uncaught:
  assumes "run_button inp"
      and "load_data (fst (fst (init_connection driver params p))) wh
             (start_date_input inp) (end_date_input inp) = Inl e"
  shows "uncaught (fst (main driver params wh inp p)) = Some e \<and>
         (\<forall>el. (Events, el) \<notin> set (rendered (fst (main driver params wh inp p))))"
proof -
  obtain conn p' where c: "init_connection driver params p = (conn, p')"
    by (cases "init_connection driver params p")
  have "snd (general_statistics (fst conn) wh inp) = Some e"
    using assms general_statistics_raises [of inp "fst conn" wh e] by (simp add: c)
  then show ?thesis
    by (auto simp: main_def c Let_def)
qed

text \<open>
  C2. With the warehouse unreachable and Run pressed, the exception of \<^verbatim>\<open>load_data\<close> leaves
  \<^verbatim>\<open>main\<close> uncaught: the run stops after the Run button, without an error message in the
  General Statistics view and before the Events view is rendered at all.
\<close>

theorem main_general_statistics_error_uncaught:
  "fst (main driver_ok sample_params (Unreachable ''timeout'') sample_input fresh_process) =
     \<lparr>rendered =
        [(Page, Title ''Match Masters Analysis''),
         (Page, Tabs [''General Statistics'', ''Events'']),
         (General_Statistics, Header ''General Statistics''),
         (General_Statistics, Columns 2),
         (General_Statistics, Date_input ''Start Date''),
         (General_Statistics, Date_input ''End Date''),
         (General_Statistics, Button ''Run'')],
      uncaught = Some (Warehouse_error ''timeout'')\<rparr>"
  by (simp add: main_def sample_first_call general_statistics_def sample_input_def
      load_data_def read_sql_def)

section \<open>Dictionaries and first-seen order\<close>

lemma map_of_dict_set: "map_of (dict_set d k v) k' = (if k' = k then Some v else map_of d k')"
  by (induction d) auto

lemma keys_dict_set:
  "map fst (dict_set d k v) = (if k \<in> set (map fst d) then map fst d else map fst d @ [k])"
  by (induction d) force+

lemma takeWhile_absent: "c \<notin> set acc \<Longrightarrow> takeWhile (\<lambda>k. k \<noteq> c) acc = acc"
  by (induction acc) auto

lemma takeWhile_upto: "c \<notin> set acc \<Longrightarrow> takeWhile (\<lambda>k. k \<noteq> c) (acc @ c # ys) = acc"
  by (induction acc) auto

lemma first_seen_step_set:
  "set (foldl (\<lambda>seen x. if x \<in> set seen then seen else seen @ [x]) acc xs) = set acc \<union> set xs"
  by (induction xs arbitrary: acc) auto

lemma first_seen_step_distinct:
  "distinct acc \<Longrightarrow>
   distinct (foldl (\<lambda>seen x. if x \<in> set seen then seen else seen @ [x]) acc xs)"
  by (induction xs arbitrary: acc) auto

lemma first_seen_step_prefix:
  "\<exists>ys. foldl (\<lambda>seen x. if x \<in> set seen then seen else seen @ [x]) acc xs = acc @ ys"
proof (induction xs arbitrary: acc)
  case Nil
  then show ?case by simp
next
  case (Cons x xs)
  show ?case
  proof (cases "x \<in> set acc")
    case True
    then show ?thesis using Cons [of acc] by simp
  next
    case False
    obtain ys where "foldl (\<lambda>seen x. if x \<in> set seen then seen else seen @ [x]) (acc @ [x]) xs
        = (acc @ [x]) @ ys"
      using Cons [of "acc @ [x]"] by blast
    then show ?thesis using False by simp
  qed
qed

lemma first_seen_step_before:
  "c \<notin> set acc \<Longrightarrow>
   set (takeWhile (\<lambda>k. k \<noteq> c) (foldl (\<lambda>seen x. if x \<in> set seen then seen else seen @ [x]) acc xs))
     = set acc \<union> set (takeWhile (\<lambda>k. k \<noteq> c) xs)"
proof (induction xs arbitrary: acc)
  case Nil
  then show ?case by (simp add: takeWhile_absent)
next
  case (Cons x xs)
  show ?case
  proof (cases "x \<in> set acc")
    case True
    then have "x \<noteq> c" using Cons.prems by auto
    then show ?thesis using True Cons.IH [OF Cons.prems] by auto
  next
    case False
    show ?thesis
    proof (cases "x = c")
      case True
      obtain ys where e: "foldl (\<lambda>seen x. if x \<in> set seen then seen else seen @ [x]) (acc @ [c]) xs
          = (acc @ [c]) @ ys"
        using first_seen_step_prefix [of "acc @ [c]" xs] by blast
      have "takeWhile (\<lambda>k. k \<noteq> c) ((acc @ [c]) @ ys) = acc"
        using Cons.prems by (simp add: takeWhile_upto)
      then show ?thesis using True False e by simp
    next
      case neq: False
      have "c \<notin> set (acc @ [x])" using Cons.prems neq by auto
      from Cons.IH [OF this] show ?thesis using False neq by auto
    qed
  qed
qed

lemma first_seen_set: "set (first_seen xs) = set xs"
  by (simp add: first_seen_def first_seen_step_set)

lemma first_seen_distinct: "distinct (first_seen xs)"
  by (simp add: first_seen_def first_seen_step_distinct)

lemma first_seen_before:
  "set (takeWhile (\<lambda>k. k \<noteq> c) (first_seen xs)) = set (takeWhile (\<lambda>k. k \<noteq> c) xs)"
  using first_seen_step_before [of c "[]" xs] by (simp add: first_seen_def)

lemma keys_from_records: "map fst (from_records ds) = union_keys ds"
  by (simp add: from_records_def o_def)

lemma map_of_from_records:
  "map_of (from_records ds) k =
     (if k \<in> set (union_keys ds) then Some (map (record_cell k) ds) else None)"
  by (simp add: from_records_def map_of_map_restrict restrict_map_def)

lemma record_cell_Missing: "(record_cell k d = Missing) = (k \<notin> fst ` set d)"
  by (cases "map_of d k") (simp_all add: record_cell_def map_of_eq_None_iff [symmetric])

lemma as_records_Some: "as_records data = Some ds \<Longrightarrow> data = map J_object ds"
proof (induction data arbitrary: ds)
  case Nil
  then show ?case by simp
next
  case (Cons v vs)
  then show ?case by (cases v) auto
qed

text \<open>
  When every payload decodes to an object, the frame that \<^verbatim>\<open>pd.DataFrame\<close> builds from
  the decoded payloads (line 166) has as its columns exactly the keys seen in any row,
  each once, in the order in which they are first seen: the columns before a column \<open>c\<close>
  are the keys that occur before the first occurrence of \<open>c\<close>. Each column has one cell per
  row: the row's value for the key (\<^verbatim>\<open>None\<close> for a JSON \<^verbatim>\<open>null\<close>), and a missing cell
  exactly where the row lacks the key.
\<close>

lemma DataFrame_columns_are_union_of_keys:
  assumes "apply_decode (map purchase_data results) = Inr data"
      and "as_records data = Some ds"
  shows "\<exists>df. DataFrame data = Inr df \<and>
           set (map fst df) = (\<Union>d \<in> set ds. fst ` set d) \<and>
           distinct (map fst df) \<and>
           (\<forall>c. set (takeWhile (\<lambda>k. k \<noteq> c) (map fst df)) =
                set (takeWhile (\<lambda>k. k \<noteq> c) (concat (map (map fst) ds)))) \<and>
           (\<forall>k \<in> set (map fst df). \<exists>col. map_of df k = Some col \<and> length col = length ds \<and>
              (\<forall>i < length ds.
                 col ! i = (case map_of (ds ! i) k of None \<Rightarrow> Missing | Some v \<Rightarrow> Of_json v) \<and>
                 ((col ! i = Missing) = (k \<notin> fst ` set (ds ! i)))))"
proof -
  let ?df = "from_records ds"
  have 1: "DataFrame data = Inr ?df"
    using assms(2) by (simp add: DataFrame_def)
  have 2: "set (map fst ?df) = (\<Union>d \<in> set ds. fst ` set d)"
    by (auto simp: keys_from_records union_keys_def first_seen_set)
  have 3: "distinct (map fst ?df)"
    by (simp add: keys_from_records union_keys_def first_seen_distinct)
  have 4: "\<forall>c. set (takeWhile (\<lambda>k. k \<noteq> c) (map fst ?df)) =
                set (takeWhile (\<lambda>k. k \<noteq> c) (concat (map (map fst) ds)))"
    by (simp add: keys_from_records union_keys_def first_seen_before)
  have 5: "\<forall>k \<in> set (map fst ?df). \<exists>col. map_of ?df k = Some col \<and> length col = length ds \<and>
              (\<forall>i < length ds.
                 col ! i = (case map_of (ds ! i) k of None \<Rightarrow> Missing | Some v \<Rightarrow> Of_json v) \<and>
                 ((col ! i = Missing) = (k \<notin> fst ` set (ds ! i))))"
  proof
    fix k assume "k \<in> set (map fst ?df)"
    then have "map_of ?df k = Some (map (record_cell k) ds)"
      by (simp add: keys_from_records map_of_from_records)
    moreover have "\<forall>i < length ds.
        map (record_cell k) ds ! i = (case map_of (ds ! i) k of None \<Rightarrow> Missing | Some v \<Rightarrow> Of_json v) \<and>
        ((map (record_cell k) ds ! i = Missing) = (k \<notin> fst ` set (ds ! i)))"
    proof (intro allI impI conjI)
      fix i assume "i < length ds"
      then have e: "map (record_cell k) ds ! i = record_cell k (ds ! i)" by simp
      show "map (record_cell k) ds ! i =
          (case map_of (ds ! i) k of None \<Rightarrow> Missing | Some v \<Rightarrow> Of_json v)"
        by (simp add: e record_cell_def)
      show "(map (record_cell k) ds ! i = Missing) = (k \<notin> fst ` set (ds ! i))"
        unfolding e by (rule record_cell_Missing)
    qed
    moreover have "length (map (record_cell k) ds) = length ds" by simp
    ultimately show "\<exists>col. map_of ?df k = Some col \<and> length col = length ds \<and>
              (\<forall>i < length ds.
                 col ! i = (case map_of (ds ! i) k of None \<Rightarrow> Missing | Some v \<Rightarrow> Of_json v) \<and>
                 ((col ! i = Missing) = (k \<notin> fst ` set (ds ! i))))"
      by blast
  qed
  from 1 2 3 4 5 show ?thesis by blast
qed

section \<open>The fixed columns of the detail table\<close>

lemma json_loads_error: "json_loads s = Inl x \<Longrightarrow> x = JSON_decode_error"
  by (auto simp: json_loads_def split: option.splits)

lemma decode_payload_error: "decode_payload p = Inl x \<Longrightarrow> x = JSON_decode_error"
  by (auto simp: decode_payload_def json_loads_error split: option.splits if_splits)

lemma apply_decode_error: "apply_decode ps = Inl x \<Longrightarrow> x = JSON_decode_error"
proof (induction ps arbitrary: x)
  case Nil
  then show ?case by simp
next
  case (Cons p ps)
  then show ?case
    by (auto simp: bind_exn_def decode_payload_error split: sum.splits)
qed

lemma apply_decode_malformed:
  assumes "Some s \<in> set ps" and "s \<noteq> []" and "json_loads s = Inl x"
  shows "apply_decode ps = Inl JSON_decode_error"
  using assms(1)
proof (induction ps)
  case Nil
  then show ?case by simp
next
  case (Cons p ps)
  show ?case
  proof (cases "decode_payload p")
    case (Inl e)
    then show ?thesis using decode_payload_error [OF Inl] by (simp add: bind_exn_def)
  next
    case (Inr v)
    then have "p \<noteq> Some s"
      using assms(2,3) by (auto simp: decode_payload_def)
    then have "Some s \<in> set ps" using Cons.prems by auto
    then show ?thesis using Cons.IH Inr by (simp add: bind_exn_def)
  qed
qed

lemma select_columns_present:
  "set cs \<subseteq> set (map fst df) \<Longrightarrow>
   select_columns df cs = Inr (map (\<lambda>c. (c, the (map_of df c))) cs)"
proof (induction cs)
  case Nil
  then show ?case by simp
next
  case (Cons c cs)
  then have "c \<in> fst ` set df" by simp
  then obtain col where "map_of df c = Some col"
    by (metis map_of_eq_None_iff not_Some_eq)
  then show ?case using Cons by (simp add: bind_exn_def)
qed

lemma keys_with_fixed_columns:
  "set (map fst (with_fixed_columns results df)) =
     set (map fst df) \<union> {''purchase_date'', ''user_name''}"
  by (auto simp: with_fixed_columns_def keys_dict_set)

lemma other_keys_with_fixed_columns:
  "filter (\<lambda>col. col \<notin> set fixed_columns) (map fst (with_fixed_columns results df)) =
     filter (\<lambda>col. col \<notin> set fixed_columns) (map fst df)"
  by (simp add: with_fixed_columns_def keys_dict_set fixed_columns_def)

lemma map_of_with_fixed_columns:
  "map_of (with_fixed_columns results df) ''purchase_date'' =
     Some (map (\<lambda>r. date_cell (purchase_date r)) results)"
  "map_of (with_fixed_columns results df) ''user_name'' =
     Some (map (\<lambda>r. text_cell (user_name r)) results)"
  by (simp_all add: with_fixed_columns_def map_of_dict_set)

lemma front_columns_present:
  "set (front_columns (with_fixed_columns results df)) \<subseteq>
     set (map fst (with_fixed_columns results df))"
  using keys_with_fixed_columns [of results df]
  by (auto simp: front_columns_def fixed_columns_def)

lemma keys_arranged:
  "map fst (arranged results df0) =
     ''purchase_date'' # ''user_name'' # filter (\<lambda>col. col \<notin> set fixed_columns) (map fst df0)"
  by (simp add: arranged_def o_def front_columns_def other_keys_with_fixed_columns)
     (simp add: fixed_columns_def)

lemma map_of_arranged:
  "map_of (arranged results df0) ''purchase_date'' =
     Some (map (\<lambda>r. date_cell (purchase_date r)) results)"
  "map_of (arranged results df0) ''user_name'' =
     Some (map (\<lambda>r. text_cell (user_name r)) results)"
  by (simp_all add: arranged_def map_of_map_restrict front_columns_def fixed_columns_def
      map_of_with_fixed_columns)

lemma detail_table_unfold:
  "detail_table results =
     bind_exn (apply_decode (map purchase_data results)) (\<lambda>data.
     bind_exn (DataFrame data) (\<lambda>df0.
     bind_exn (format_dates (map (\<lambda>r. date_cell (purchase_date r)) results)) (\<lambda>dates.
       Inr (dict_set (arranged results df0) ''purchase_date'' dates))))"
proof -
  have "\<And>df0. select_columns (with_fixed_columns results df0)
            (front_columns (with_fixed_columns results df0)) = Inr (arranged results df0)"
    unfolding arranged_def by (rule select_columns_present) (rule front_columns_present)
  then show ?thesis
    by (simp add: detail_table_def Let_def bind_exn_def map_of_arranged
        split: sum.splits cong: sum.case_cong)
qed

lemma distinct_keys_arranged:
  "distinct (map fst df0) \<Longrightarrow> distinct (map fst (arranged results df0))"
  by (auto simp: keys_arranged fixed_columns_def)

lemma DataFrame_distinct: "DataFrame data = Inr df0 \<Longrightarrow> distinct (map fst df0)"
  by (auto simp: DataFrame_def keys_from_records union_keys_def first_seen_distinct
      split: option.splits)

text \<open>
  C10. Whenever the detail table is built, it has exactly one column \<^verbatim>\<open>purchase_date\<close> and
  one column \<^verbatim>\<open>user_name\<close>, in front, holding the values of the query result (the
  formatted dates and the user names), whatever the payloads hold under those keys: a
  payload-derived column of either name is overwritten and does not appear among the
  other columns.
\<close>

theorem fixed_columns_overwrite_payload:
  assumes "detail_table results = Inr table"
  shows "\<exists>df0 dates.
           bind_exn (apply_decode (map purchase_data results)) DataFrame = Inr df0 \<and>
           format_dates (map (\<lambda>r. date_cell (purchase_date r)) results) = Inr dates \<and>
           map fst table =
             ''purchase_date'' # ''user_name'' #
             filter (\<lambda>col. col \<notin> set fixed_columns) (map fst df0) \<and>
           distinct (map fst table) \<and>
           map_of table ''purchase_date'' = Some dates \<and>
           map_of table ''user_name'' = Some (map (\<lambda>r. text_cell (user_name r)) results)"
proof -
  from assms obtain data df0 dates where
    d: "apply_decode (map purchase_data results) = Inr data" and
    f: "DataFrame data = Inr df0" and
    t: "format_dates (map (\<lambda>r. date_cell (purchase_date r)) results) = Inr dates" and
    r: "table = dict_set (arranged results df0) ''purchase_date'' dates"
    unfolding detail_table_unfold bind_exn_def by (auto split: sum.splits)
  have k: "map fst table = map fst (arranged results df0)"
    by (simp add: r keys_dict_set keys_arranged)
  have "bind_exn (apply_decode (map purchase_data results)) DataFrame = Inr df0"
    by (simp add: d f bind_exn_def)
  moreover have "map fst table =
      ''purchase_date'' # ''user_name'' # filter (\<lambda>col. col \<notin> set fixed_columns) (map fst df0)"
    by (simp add: k keys_arranged)
  moreover have "distinct (map fst table)"
    unfolding k using DataFrame_distinct [OF f] by (rule distinct_keys_arranged)
  moreover have "map_of table ''purchase_date'' = Some dates"
    by (simp add: r map_of_dict_set)
  moreover have "map_of table ''user_name'' = Some (map (\<lambda>r. text_cell (user_name r)) results)"
    by (simp add: r map_of_dict_set map_of_arranged)
  ultimately show ?thesis using t
    by - (rule exI [of _ df0], rule exI [of _ dates], intro conjI, assumption+)
qed

section \<open>The samples, evaluated\<close>

lemmas scan_defs = is_space_def code_def atom_char_def is_digit_def is_alpha_def punct_def
  emit_def escape_def hex_digit_def

lemmas parse_defs = step_def begin_value_def begin_key_def push_value_def close_object_def
  close_array_def atom_def number_def Let_def exponent_ok_def all_digits_def nat_of_digits_def

lemma loads_gems:
  "json_loads gems_payload =
     Inr (J_object [(''sku'', J_string ''gems''), (''iap_price'', J_float ''4.99'')])"
  by (simp add: json_loads_def gems_payload_def quoted_def scan_defs parse_defs)

lemma loads_clash:
  "json_loads clash_payload =
     Inr (J_object [(''user_name'', J_string ''mallory''), (''coins'', J_int 100)])"
  by (simp add: json_loads_def clash_payload_def quoted_def scan_defs parse_defs)

lemma loads_malformed: "json_loads malformed_payload = Inl JSON_decode_error"
  by (simp add: json_loads_def malformed_payload_def scan_defs parse_defs)

lemma sample_join:
  "filter (purchase_where ''u7'')
     (purchase_join [purchase_event 3 gems_payload (Some gems_price), purchase_event 4 malformed_payload None]) =
   [(purchase_event 3 gems_payload (Some gems_price), V_object \<lparr>ctx_uuid = Some ''u7'', ctx_user_name = Some ''dana''\<rparr>),
    (purchase_event 4 malformed_payload None, V_object \<lparr>ctx_uuid = Some ''u7'', ctx_user_name = Some ''dana''\<rparr>)]"
  by (simp add: purchase_join_def purchase_where_def purchase_event_def lateral_flatten_def
      path_uuid_def)

lemma sample_keys:
  "purchase_key (purchase_event d p a, V_object \<lparr>ctx_uuid = Some ''u7'', ctx_user_name = Some ''dana''\<rparr>)
     = (Some (mar d), Some ''dana'', Some p)"
  by (simp add: purchase_key_def purchase_event_def path_user_name_def)

lemma payloads_differ: "gems_payload \<noteq> malformed_payload"
  by (simp add: gems_payload_def malformed_payload_def quoted_def)

lemma sample_price: "iap_price (purchase_event d p a) = a"
  by (simp add: purchase_event_def)

lemma sample_group_keys:
  "remdups (map purchase_key
     [(purchase_event 3 gems_payload (Some gems_price), V_object \<lparr>ctx_uuid = Some ''u7'', ctx_user_name = Some ''dana''\<rparr>),
      (purchase_event 4 malformed_payload None, V_object \<lparr>ctx_uuid = Some ''u7'', ctx_user_name = Some ''dana''\<rparr>)])
   = [(Some (mar 3), Some ''dana'', Some gems_payload),
      (Some (mar 4), Some ''dana'', Some malformed_payload)]"
  by (simp add: sample_keys payloads_differ)

lemma sample_group_3:
  "purchase_group
     [(purchase_event 3 gems_payload (Some gems_price), V_object \<lparr>ctx_uuid = Some ''u7'', ctx_user_name = Some ''dana''\<rparr>),
      (purchase_event 4 malformed_payload None, V_object \<lparr>ctx_uuid = Some ''u7'', ctx_user_name = Some ''dana''\<rparr>)]
     (Some (mar 3), Some ''dana'', Some gems_payload) = purchase_result 3 gems_payload (Some gems_price)"
  by (simp add: purchase_group_def sample_keys payloads_differ sample_price sum_prices_def
      List.map_filter_def purchase_result_def)

lemma sample_group_4:
  "purchase_group
     [(purchase_event 3 gems_payload (Some gems_price), V_object \<lparr>ctx_uuid = Some ''u7'', ctx_user_name = Some ''dana''\<rparr>),
      (purchase_event 4 malformed_payload None, V_object \<lparr>ctx_uuid = Some ''u7'', ctx_user_name = Some ''dana''\<rparr>)]
     (Some (mar 4), Some ''dana'', Some malformed_payload) = purchase_result 4 malformed_payload None"
  by (simp add: purchase_group_def sample_keys payloads_differ payloads_differ [symmetric] sample_price sum_prices_def
      List.map_filter_def purchase_result_def)

lemma sample_order:
  "order_by_purchase_date [purchase_result 3 gems_payload (Some gems_price), purchase_result 4 malformed_payload None] =
     [purchase_result 3 gems_payload (Some gems_price), purchase_result 4 malformed_payload None]"
  by (simp add: order_by_purchase_date_def purchase_result_def mar_def date_key_def)

lemma sample_purchases:
  "purchases_of ''u7'' [purchase_event 3 gems_payload (Some gems_price), purchase_event 4 malformed_payload None] =
     [purchase_result 3 gems_payload (Some gems_price), purchase_result 4 malformed_payload None]"
  unfolding purchases_of_def Let_def sample_join sample_group_keys
  by (simp only: list.map sample_group_3 sample_group_4 sample_order)

lemma gems_nonempty: "gems_payload \<noteq> []" "clash_payload \<noteq> []" "malformed_payload \<noteq> []"
  by (simp_all add: gems_payload_def clash_payload_def malformed_payload_def)

lemma sample_detail_malformed:
  "detail_table [purchase_result 3 gems_payload (Some gems_price), purchase_result 4 malformed_payload None]
     = Inl JSON_decode_error"
  by (simp add: detail_table_def bind_exn_def decode_payload_def purchase_result_def
      gems_nonempty loads_gems loads_malformed)

lemma sample_read:
  "read_sql (user_purchase_query (user_id_input dana_input)) (Some (Engine 0))
     (Online [purchase_event 3 gems_payload (Some gems_price), purchase_event 4 malformed_payload None] no_rewrite)
   = Inr [purchase_result 3 gems_payload (Some gems_price), purchase_result 4 malformed_payload None]"
  by (simp add: read_sql_def user_purchase_query_def dana_input_def sample_purchases)

lemma sample_strftime: "strftime (mar 3) = ''2024-03-03''"
  by (simp add: strftime_def digit_def mar_def char_of_eq_iff)

lemma sample_detail_clash:
  "detail_table [purchase_result 3 clash_payload None] =
     Inr [(''purchase_date'', [Text ''2024-03-03'']),
          (''user_name'', [Text ''dana'']),
          (''coins'', [Of_json (J_int 100)])]"
  by (simp add: detail_table_def bind_exn_def decode_payload_def purchase_result_def
      gems_nonempty loads_clash DataFrame_def from_records_def union_keys_def first_seen_def
      record_cell_def with_fixed_columns_def front_columns_def fixed_columns_def
      date_cell_def text_cell_def in_timestamp_range_def date_key_def mar_def sample_strftime [unfolded mar_def])

section \<open>A malformed payload\<close>

text \<open>
  C3, as the code has it. An empty or NULL payload falls back to an empty object. A row
  whose payload is a non-empty text that \<^verbatim>\<open>json.loads\<close> rejects makes the whole transform raise
  \<^verbatim>\<open>JSONDecodeError\<close>: no row is flattened. The handler of the Events view catches the
  exception: after the summary chart the view shows the error message, and no detail table.
\<close>

theorem malformed_payload_aborts:
  assumes "Some s \<in> set (map purchase_data results)" and "s \<noteq> []" and "json_loads s = Inl x"
      and "user_id_input inp \<noteq> []"
      and "read_sql (user_purchase_query (user_id_input inp)) eng wh = Inr results"
  shows "decode_payload None = Inr (J_object []) \<and>
         decode_payload (Some []) = Inr (J_object []) \<and>
         detail_table results = Inl JSON_decode_error \<and>
         (\<exists>name. events eng wh inp =
            [Header ''Events'', Text_input ''Enter User ID'',
             Subheader (''Purchase Data for User: '' @ name),
             Plotly_chart (Bar_daily_purchases results (''Daily Purchase Amounts for '' @ name)),
             Error ''Error executing query: '' JSON_decode_error])"
proof -
  have a: "detail_table results = Inl JSON_decode_error"
    using apply_decode_malformed [OF assms(1,2,3)]
    by (simp add: detail_table_def bind_exn_def)
  from assms(1) obtain first others where "results = first # others"
    by (cases results) auto
  then show ?thesis
    using a assms(4,5) by (simp add: events_def Let_def decode_payload_def)
qed

theorem malformed_payload_aborts_witness:
  "Some malformed_payload \<in>
     set (map purchase_data
       [purchase_result 3 gems_payload (Some gems_price), purchase_result 4 malformed_payload None]) \<and>
   malformed_payload \<noteq> [] \<and>
   json_loads malformed_payload = Inl JSON_decode_error \<and>
   user_id_input dana_input \<noteq> [] \<and>
   read_sql (user_purchase_query (user_id_input dana_input)) (Some (Engine 0))
     (Online [purchase_event 3 gems_payload (Some gems_price),
              purchase_event 4 malformed_payload None] no_rewrite)
     = Inr [purchase_result 3 gems_payload (Some gems_price), purchase_result 4 malformed_payload None] \<and>
   detail_table
     [purchase_result 3 gems_payload (Some gems_price), purchase_result 4 malformed_payload None]
     = Inl JSON_decode_error"
proof -
  have a: "Some malformed_payload \<in>
     set (map purchase_data
       [purchase_result 3 gems_payload (Some gems_price), purchase_result 4 malformed_payload None])"
    by (simp add: purchase_result_def)
  have b: "malformed_payload \<noteq> []" by (rule gems_nonempty)
  have n: "user_id_input dana_input \<noteq> []"
    by (simp add: dana_input_def)
  show ?thesis
    using a b n loads_malformed sample_read
      malformed_payload_aborts [OF a b loads_malformed n sample_read]
    by simp
qed

text \<open>
  C3 as stated fails: with one well-formed and one malformed payload the transform raises
  instead of returning a table, and the Events view ends with the error message.
\<close>

theorem malformed_payload_counterexample:
  "detail_table
     [purchase_result 3 gems_payload (Some gems_price), purchase_result 4 malformed_payload None]
     = Inl JSON_decode_error \<and>
   events (Some (Engine 0))
     (Online [purchase_event 3 gems_payload (Some gems_price),
              purchase_event 4 malformed_payload None] no_rewrite) dana_input =
     [Header ''Events'', Text_input ''Enter User ID'',
      Subheader ''Purchase Data for User: dana'',
      Plotly_chart
        (Bar_daily_purchases
           [purchase_result 3 gems_payload (Some gems_price),
            purchase_result 4 malformed_payload None]
           ''Daily Purchase Amounts for dana''),
      Error ''Error executing query: '' JSON_decode_error]"
proof -
  have n: "user_id_input dana_input \<noteq> []"
    by (simp add: dana_input_def)
  have u: "user_name (purchase_result 3 gems_payload (Some gems_price)) = Some ''dana''"
    by (simp add: purchase_result_def)
  show ?thesis
    using n by (simp add: events_def Let_def sample_read sample_detail_malformed u str_of_def)
qed

section \<open>Witnesses for the columns of the detail table\<close>

lemma sample_decode_mixed:
  "apply_decode (map purchase_data
     [purchase_result 3 gems_payload (Some gems_price), purchase_result 4 clash_payload None]) =
   Inr [J_object [(''sku'', J_string ''gems''), (''iap_price'', J_float ''4.99'')],
        J_object [(''user_name'', J_string ''mallory''), (''coins'', J_int 100)]]"
  by (simp add: bind_exn_def decode_payload_def purchase_result_def gems_nonempty
      loads_gems loads_clash)

lemma sample_records_mixed:
  "as_records
     [J_object [(''sku'', J_string ''gems''), (''iap_price'', J_float ''4.99'')],
      J_object [(''user_name'', J_string ''mallory''), (''coins'', J_int 100)]] =
   Some [[(''sku'', J_string ''gems''), (''iap_price'', J_float ''4.99'')],
         [(''user_name'', J_string ''mallory''), (''coins'', J_int 100)]]"
  by simp

lemma sample_frame_mixed:
  "DataFrame
     [J_object [(''sku'', J_string ''gems''), (''iap_price'', J_float ''4.99'')],
      J_object [(''user_name'', J_string ''mallory''), (''coins'', J_int 100)]] =
   Inr [(''sku'', [Of_json (J_string ''gems''), Missing]),
        (''iap_price'', [Of_json (J_float ''4.99''), Missing]),
        (''user_name'', [Missing, Of_json (J_string ''mallory'')]),
        (''coins'', [Missing, Of_json (J_int 100)])]"
  by (simp add: DataFrame_def from_records_def union_keys_def first_seen_def record_cell_def)

theorem fixed_columns_overwrite_payload_witness:
  "detail_table [purchase_result 3 clash_payload None] =
     Inr [(''purchase_date'', [Text ''2024-03-03'']),
          (''user_name'', [Text ''dana'']),
          (''coins'', [Of_json (J_int 100)])] \<and>
   json_loads clash_payload =
     Inr (J_object [(''user_name'', J_string ''mallory''), (''coins'', J_int 100)]) \<and>
   map_of [(''purchase_date'', [Text ''2024-03-03'']),
           (''user_name'', [Text ''dana'']),
           (''coins'', [Of_json (J_int 100)])] ''user_name'' =
     Some (map (\<lambda>r. text_cell (user_name r)) [purchase_result 3 clash_payload None])"
  using fixed_columns_overwrite_payload [OF sample_detail_clash] sample_detail_clash loads_clash
  by (simp add: purchase_result_def text_cell_def)

section \<open>The column configuration\<close>

lemma starts_with_iff: "starts_with p s = (\<exists>suf. s = p @ suf)"
  by (induction p s rule: starts_with.induct) auto

lemma contains_iff: "contains t s = (\<exists>pre suf. s = pre @ t @ suf)"
proof (induction s)
  case Nil
  then show ?case by auto
next
  case (Cons c cs)
  show ?case
  proof
    assume "contains t (c # cs)"
    then consider "starts_with t (c # cs)" | "contains t cs" by auto
    then show "\<exists>pre suf. c # cs = pre @ t @ suf"
    proof cases
      case 1
      then obtain suf where "c # cs = t @ suf" using starts_with_iff by blast
      then have "c # cs = [] @ t @ suf" by simp
      then show ?thesis by blast
    next
      case 2
      then obtain pre suf where "cs = pre @ t @ suf" using Cons by blast
      then have "c # cs = (c # pre) @ t @ suf" by simp
      then show ?thesis by blast
    qed
  next
    assume "\<exists>pre suf. c # cs = pre @ t @ suf"
    then obtain pre suf where e: "c # cs = pre @ t @ suf" by blast
    show "contains t (c # cs)"
    proof (cases pre)
      case Nil
      then have "starts_with t (c # cs)" using e starts_with_iff by auto
      then show ?thesis by simp
    next
      case (Cons a pre')
      then have "cs = pre' @ t @ suf" using e by simp
      then have "contains t cs" using Cons.IH by blast
      then show ?thesis by simp
    qed
  qed
qed

lemma map_of_fold_dict_set:
  "map_of (foldl (\<lambda>cfg col. dict_set cfg col (f col)) cfg0 cols) k =
     (if k \<in> set cols then Some (f k) else map_of cfg0 k)"
  by (induction cols arbitrary: cfg0) (auto simp: map_of_dict_set)

lemma fixed_not_price: "\<not> is_price_column ''purchase_date''" "\<not> is_price_column ''user_name''"
  by (simp_all add: is_price_column_def lower_def lower_char_def code_def)

lemma column_config_lookup:
  "map_of (column_config df) col =
     (if col \<in> set (map fst df) \<and> is_price_column col then Some (number_column col)
      else if col = ''purchase_date'' then Some (Label ''Date'')
      else if col = ''user_name'' then Some (Label ''User Name'')
      else None)"
  by (auto simp: column_config_def map_of_fold_dict_set price_columns_def)

lemma sprintf_without_conversion: "CHR ''%'' \<notin> set fmt \<Longrightarrow> sprintf conv fmt v = fmt"
  by (induction fmt) auto

lemma sample_detail_gems:
  "detail_table [purchase_result 3 gems_payload (Some gems_price)] =
     Inr [(''purchase_date'', [Text ''2024-03-03'']),
          (''user_name'', [Text ''dana'']),
          (''sku'', [Of_json (J_string ''gems'')]),
          (''iap_price'', [Of_json (J_float ''4.99'')])]"
  by (simp add: detail_table_def bind_exn_def decode_payload_def purchase_result_def
      gems_nonempty loads_gems DataFrame_def from_records_def union_keys_def first_seen_def
      record_cell_def with_fixed_columns_def front_columns_def fixed_columns_def
      date_cell_def text_cell_def in_timestamp_range_def date_key_def mar_def sample_strftime [unfolded mar_def])

lemma iap_price_is_price: "is_price_column ''iap_price''"
  by (simp add: is_price_column_def lower_def lower_char_def code_def)

lemma sku_not_price: "\<not> is_price_column ''sku''"
  by (simp add: is_price_column_def lower_def lower_char_def code_def)

lemma iap_price_title: "title (underscores_to_spaces ''iap_price'') = ''Iap Price''"
  by (simp add: title_def underscores_to_spaces_def is_alpha_def code_def lower_char_def
      upper_char_def char_of_eq_iff)

text \<open>
  C5. On a table with the columns \<^verbatim>\<open>sku\<close> and \<^verbatim>\<open>iap_price\<close>, the configuration gives a
  number format to \<^verbatim>\<open>iap_price\<close> only, as the claim says, but the format string is
  \<^verbatim>\<open>$.2f\<close>: it has no \<^verbatim>\<open>%\<close>, hence no conversion, and every cell of the column is rendered as
  the text \<^verbatim>\<open>$.2f\<close> instead of the amount with two decimals.
\<close>

theorem price_column_format_has_no_conversion:
  "detail_table [purchase_result 3 gems_payload (Some gems_price)] =
     Inr [(''purchase_date'', [Text ''2024-03-03'']),
          (''user_name'', [Text ''dana'']),
          (''sku'', [Of_json (J_string ''gems'')]),
          (''iap_price'', [Of_json (J_float ''4.99'')])] \<and>
   column_config
     [(''purchase_date'', [Text ''2024-03-03'']),
      (''user_name'', [Text ''dana'']),
      (''sku'', [Of_json (J_string ''gems'')]),
      (''iap_price'', [Of_json (J_float ''4.99'')])] =
     [(''purchase_date'', Label ''Date''),
      (''user_name'', Label ''User Name''),
      (''iap_price'', Number_column ''Iap Price'' ''$.2f'')] \<and>
   (\<forall>conv v. sprintf conv ''$.2f'' v = ''$.2f'')"
  by (simp add: sample_detail_gems column_config_def price_columns_def fixed_not_price
      iap_price_is_price sku_not_price number_column_def iap_price_title)

section \<open>A user identifier that matches nothing\<close>

lemma purchases_of_none:
  assumes "filter (purchase_where ident) (purchase_join es) = []"
  shows "purchases_of ident es = []"
  using assms by (simp add: purchases_of_def order_by_purchase_date_def)

text \<open>An identifier without quote and backslash characters reads back as itself.\<close>

lemma sql_unquote_plain:
  "CHR 0x27 \<notin> set s \<Longrightarrow> CHR 0x5C \<notin> set s \<Longrightarrow> sql_unquote s = Some s"
  by (induction s rule: sql_unquote.induct) auto

text \<open>
  C7, as the code has it. For an identifier that was entered (the text is not empty) and
  that the warehouse reads back as one string constant, when no joined row of the query
  satisfies its WHERE clause for that constant, the query returns an empty table, not an
  error, and the Events view renders the "No purchase data found" warning and neither a
  chart nor a table.
\<close>

theorem unknown_user_not_found:
  assumes "user_id_input inp \<noteq> []"
      and "sql_unquote (user_id_input inp) = Some ident"
      and "filter (purchase_where ident) (purchase_join es) = []"
  shows "read_sql (user_purchase_query (user_id_input inp)) (Some eng) (Online es rw) = Inr [] \<and>
         events (Some eng) (Online es rw) inp =
           [Header ''Events'', Text_input ''Enter User ID'',
            Warning ''No purchase data found for this user ID.'']"
proof -
  have q: "read_sql (user_purchase_query (user_id_input inp)) (Some eng) (Online es rw) = Inr []"
    using assms(2) purchases_of_none [OF assms(3)]
    by (simp add: read_sql_def user_purchase_query_def)
  then show ?thesis
    using assms(1) by (simp add: events_def)
qed

lemma sample_ghost_unmatched:
  "filter (purchase_where ''ghost'')
     (purchase_join [purchase_event 3 gems_payload (Some gems_price),
                     purchase_event 4 malformed_payload None]) = []"
  by (simp add: purchase_join_def purchase_where_def purchase_event_def lateral_flatten_def
      path_uuid_def)

theorem unknown_user_not_found_witness:
  "user_id_input ghost_input \<noteq> [] \<and>
   sql_unquote (user_id_input ghost_input) = Some ''ghost'' \<and>
   filter (purchase_where ''ghost'')
     (purchase_join [purchase_event 3 gems_payload (Some gems_price),
                     purchase_event 4 malformed_payload None]) = [] \<and>
   read_sql (user_purchase_query (user_id_input dana_input)) (Some (Engine 0))
     (Online [purchase_event 3 gems_payload (Some gems_price),
              purchase_event 4 malformed_payload None] no_rewrite)
     = Inr [purchase_result 3 gems_payload (Some gems_price), purchase_result 4 malformed_payload None] \<and>
   read_sql (user_purchase_query (user_id_input ghost_input)) (Some (Engine 0))
     (Online [purchase_event 3 gems_payload (Some gems_price),
              purchase_event 4 malformed_payload None] no_rewrite) = Inr [] \<and>
   events (Some (Engine 0))
     (Online [purchase_event 3 gems_payload (Some gems_price),
              purchase_event 4 malformed_payload None] no_rewrite) ghost_input =
     [Header ''Events'', Text_input ''Enter User ID'',
      Warning ''No purchase data found for this user ID.'']"
proof -
  have a: "user_id_input ghost_input \<noteq> []"
    by (simp add: ghost_input_def)
  have b: "sql_unquote (user_id_input ghost_input) = Some ''ghost''"
    by (simp add: ghost_input_def)
  show ?thesis
    using a b sample_ghost_unmatched sample_read
      unknown_user_not_found [OF a b sample_ghost_unmatched, of "Engine 0" no_rewrite]
    by simp
qed

text \<open>
  C7 as stated fails: the identifier \<^verbatim>\<open>o'b\<close> matches no row, yet line 131 writes it
  unescaped between the quotes of the statement, the warehouse rejects the statement, and
  the Events view renders the error message instead of the warning.
\<close>

theorem quoted_user_id_counterexample:
  "user_id_input quote_input = [CHR ''o'', CHR 0x27, CHR ''b''] \<and>
   filter (purchase_where (user_id_input quote_input))
     (purchase_join [purchase_event 3 gems_payload (Some gems_price),
                     purchase_event 4 malformed_payload None]) = [] \<and>
   read_sql (user_purchase_query (user_id_input quote_input)) (Some (Engine 0))
     (Online [purchase_event 3 gems_payload (Some gems_price),
              purchase_event 4 malformed_payload None] no_rewrite)
     = Inl (Warehouse_error ''SQL compilation error'') \<and>
   events (Some (Engine 0))
     (Online [purchase_event 3 gems_payload (Some gems_price),
              purchase_event 4 malformed_payload None] no_rewrite) quote_input =
     [Header ''Events'', Text_input ''Enter User ID'',
      Error ''Error executing query: '' (Warehouse_error ''SQL compilation error'')]"
  by (simp add: quote_input_def quote_id_def purchase_join_def purchase_where_def
      purchase_event_def lateral_flatten_def path_uuid_def events_def read_sql_def
      user_purchase_query_def no_rewrite_def)

section \<open>The payload-derived columns of the detail table\<close>

lemma takeWhile_filter:
  "P c \<Longrightarrow> takeWhile (\<lambda>k. k \<noteq> c) (filter P xs) = filter P (takeWhile (\<lambda>k. k \<noteq> c) xs)"
  by (induction xs) auto

lemma apply_decode_length: "apply_decode ps = Inr vs \<Longrightarrow> length vs = length ps"
proof (induction ps arbitrary: vs)
  case Nil
  then show ?case by simp
next
  case (Cons p ps)
  then show ?case by (auto simp: bind_exn_def split: sum.splits)
qed

lemma map_of_with_fixed_columns_other:
  "k \<notin> set fixed_columns \<Longrightarrow> map_of (with_fixed_columns results df) k = map_of df k"
  by (simp add: with_fixed_columns_def map_of_dict_set fixed_columns_def)

lemma map_of_arranged_other:
  assumes "k \<notin> set fixed_columns" and "k \<in> set (map fst df0)"
  shows "map_of (arranged results df0) k = map_of df0 k"
proof -
  have "k \<in> set (front_columns (with_fixed_columns results df0))"
    using assms by (simp add: front_columns_def other_keys_with_fixed_columns)
  then have "map_of (arranged results df0) k =
      Some (the (map_of (with_fixed_columns results df0) k))"
    by (simp add: arranged_def map_of_map_restrict)
  moreover obtain col where "map_of df0 k = Some col"
    using assms(2) by (metis image_set map_of_eq_None_iff not_Some_eq)
  ultimately show ?thesis
    using assms(1) by (simp add: map_of_with_fixed_columns_other)
qed

lemma as_records_objects: "as_records (map J_object ds) = Some ds"
  by (induction ds) auto

text \<open>The table is built whenever the payloads decode to objects and the dates format.\<close>

lemma detail_table_built:
  assumes "apply_decode (map purchase_data results) = Inr (map J_object ds)"
      and "format_dates (map (\<lambda>r. date_cell (purchase_date r)) results) = Inr dates"
  shows "\<exists>table. detail_table results = Inr table"
  using assms
  by (simp add: detail_table_unfold bind_exn_def DataFrame_def as_records_objects)

text \<open>
  C4, as the code has it. Whenever the detail table is built, its payload-derived columns
  (the columns after \<^verbatim>\<open>purchase_date\<close> and \<^verbatim>\<open>user_name\<close>) are exactly the keys seen in any
  row other than \<^verbatim>\<open>purchase_date\<close> and \<^verbatim>\<open>user_name\<close>, each once, in the order in which they
  are first seen: the columns before a column \<open>c\<close> are the other keys that occur before the
  first occurrence of \<open>c\<close>. Each such column has one cell per row: the row's value for the
  key (\<^verbatim>\<open>None\<close> for a JSON \<^verbatim>\<open>null\<close>), and a missing cell exactly where the row lacks the key.
\<close>

theorem detail_table_payload_columns:
  assumes "detail_table results = Inr table"
  shows "\<exists>ds. apply_decode (map purchase_data results) = Inr (map J_object ds) \<and>
           length ds = length results \<and>
           map fst table = ''purchase_date'' # ''user_name'' # drop 2 (map fst table) \<and>
           set (drop 2 (map fst table)) = (\<Union>d \<in> set ds. fst ` set d) - set fixed_columns \<and>
           distinct (drop 2 (map fst table)) \<and>
           (\<forall>c. c \<notin> set fixed_columns \<longrightarrow>
              set (takeWhile (\<lambda>k. k \<noteq> c) (drop 2 (map fst table))) =
              set (takeWhile (\<lambda>k. k \<noteq> c) (concat (map (map fst) ds))) - set fixed_columns) \<and>
           (\<forall>k \<in> set (drop 2 (map fst table)).
              \<exists>col. map_of table k = Some col \<and> length col = length ds \<and>
                (\<forall>i < length ds.
                   col ! i = (case map_of (ds ! i) k of None \<Rightarrow> Missing | Some v \<Rightarrow> Of_json v) \<and>
                   ((col ! i = Missing) = (k \<notin> fst ` set (ds ! i)))))"
proof -
  from assms obtain data df0 dates where
    d: "apply_decode (map purchase_data results) = Inr data" and
    f: "DataFrame data = Inr df0" and
    r: "table = dict_set (arranged results df0) ''purchase_date'' dates"
    unfolding detail_table_unfold bind_exn_def by (auto split: sum.splits)
  from f obtain ds where a: "as_records data = Some ds" and df0: "df0 = from_records ds"
    by (auto simp: DataFrame_def split: option.splits)
  have data: "data = map J_object ds" using a by (rule as_records_Some)
  let ?keys = "concat (map (map fst) ds)"
  let ?cols = "filter (\<lambda>col. col \<notin> set fixed_columns) (union_keys ds)"
  have k: "map fst table = ''purchase_date'' # ''user_name'' # ?cols"
    by (simp add: r keys_dict_set keys_arranged df0 keys_from_records)
  then have dr: "drop 2 (map fst table) = ?cols" by simp
  have 1: "apply_decode (map purchase_data results) = Inr (map J_object ds)"
    using d data by simp
  have 2: "length ds = length results"
    using apply_decode_length [OF d] data by simp
  have 3: "map fst table = ''purchase_date'' # ''user_name'' # drop 2 (map fst table)"
    using k by simp
  have 4: "set (drop 2 (map fst table)) = (\<Union>d \<in> set ds. fst ` set d) - set fixed_columns"
    unfolding dr by (auto simp: union_keys_def first_seen_set)
  have 5: "distinct (drop 2 (map fst table))"
    unfolding dr by (simp add: union_keys_def first_seen_distinct)
  have 6: "\<forall>c. c \<notin> set fixed_columns \<longrightarrow>
              set (takeWhile (\<lambda>k. k \<noteq> c) (drop 2 (map fst table))) =
              set (takeWhile (\<lambda>k. k \<noteq> c) ?keys) - set fixed_columns"
  proof (intro allI impI)
    fix c assume c: "c \<notin> set fixed_columns"
    have "takeWhile (\<lambda>k. k \<noteq> c) ?cols =
        filter (\<lambda>col. col \<notin> set fixed_columns) (takeWhile (\<lambda>k. k \<noteq> c) (union_keys ds))"
      using c by (rule takeWhile_filter)
    then show "set (takeWhile (\<lambda>k. k \<noteq> c) (drop 2 (map fst table))) =
              set (takeWhile (\<lambda>k. k \<noteq> c) ?keys) - set fixed_columns"
      unfolding dr using first_seen_before [of c ?keys] by (auto simp: union_keys_def)
  qed
  have 7: "\<forall>k \<in> set (drop 2 (map fst table)).
              \<exists>col. map_of table k = Some col \<and> length col = length ds \<and>
                (\<forall>i < length ds.
                   col ! i = (case map_of (ds ! i) k of None \<Rightarrow> Missing | Some v \<Rightarrow> Of_json v) \<and>
                   ((col ! i = Missing) = (k \<notin> fst ` set (ds ! i))))"
  proof
    fix k assume "k \<in> set (drop 2 (map fst table))"
    then have nf: "k \<notin> set fixed_columns" and uk: "k \<in> set (union_keys ds)"
      unfolding dr by auto
    have "k \<noteq> ''purchase_date''" using nf by (auto simp: fixed_columns_def)
    then have "map_of table k = map_of (arranged results df0) k"
      by (simp add: r map_of_dict_set)
    also have "\<dots> = map_of df0 k"
      using nf uk by (intro map_of_arranged_other) (simp_all add: df0 keys_from_records)
    also have "\<dots> = Some (map (record_cell k) ds)"
      using uk by (simp add: df0 map_of_from_records)
    finally have m: "map_of table k = Some (map (record_cell k) ds)" .
    have "\<forall>i < length ds.
        map (record_cell k) ds ! i = (case map_of (ds ! i) k of None \<Rightarrow> Missing | Some v \<Rightarrow> Of_json v) \<and>
        ((map (record_cell k) ds ! i = Missing) = (k \<notin> fst ` set (ds ! i)))"
    proof (intro allI impI conjI)
      fix i assume "i < length ds"
      then have e: "map (record_cell k) ds ! i = record_cell k (ds ! i)" by simp
      show "map (record_cell k) ds ! i =
          (case map_of (ds ! i) k of None \<Rightarrow> Missing | Some v \<Rightarrow> Of_json v)"
        by (simp add: e record_cell_def)
      show "(map (record_cell k) ds ! i = Missing) = (k \<notin> fst ` set (ds ! i))"
        unfolding e by (rule record_cell_Missing)
    qed
    moreover have "length (map (record_cell k) ds) = length ds" by simp
    ultimately show "\<exists>col. map_of table k = Some col \<and> length col = length ds \<and>
                (\<forall>i < length ds.
                   col ! i = (case map_of (ds ! i) k of None \<Rightarrow> Missing | Some v \<Rightarrow> Of_json v) \<and>
                   ((col ! i = Missing) = (k \<notin> fst ` set (ds ! i))))"
      using m by blast
  qed
  show ?thesis
    using 1 2 3 4 5 6 7
    by - (rule exI [of _ ds], intro conjI, assumption+)
qed

lemma sample_detail_mixed:
  "detail_table
     [purchase_result 3 gems_payload (Some gems_price), purchase_result 4 clash_payload None] =
   Inr [(''purchase_date'', [Text ''2024-03-03'', Text ''2024-03-04'']),
        (''user_name'', [Text ''dana'', Text ''dana'']),
        (''sku'', [Of_json (J_string ''gems''), Missing]),
        (''iap_price'', [Of_json (J_float ''4.99''), Missing]),
        (''coins'', [Missing, Of_json (J_int 100)])]"
  by (simp add: detail_table_def bind_exn_def decode_payload_def purchase_result_def
      gems_nonempty loads_gems loads_clash DataFrame_def from_records_def union_keys_def
      first_seen_def record_cell_def with_fixed_columns_def front_columns_def fixed_columns_def
      date_cell_def text_cell_def in_timestamp_range_def date_key_def mar_def
      strftime_def digit_def char_of_eq_iff)

lemma sample_union_mixed:
  "union_keys
     [[(''sku'', J_string ''gems''), (''iap_price'', J_float ''4.99'')],
      [(''user_name'', J_string ''mallory''), (''coins'', J_int 100)]] =
   [''sku'', ''iap_price'', ''user_name'', ''coins'']"
  by (simp add: union_keys_def first_seen_def)

theorem detail_table_payload_columns_witness:
  "detail_table
     [purchase_result 3 gems_payload (Some gems_price), purchase_result 4 clash_payload None] =
   Inr [(''purchase_date'', [Text ''2024-03-03'', Text ''2024-03-04'']),
        (''user_name'', [Text ''dana'', Text ''dana'']),
        (''sku'', [Of_json (J_string ''gems''), Missing]),
        (''iap_price'', [Of_json (J_float ''4.99''), Missing]),
        (''coins'', [Missing, Of_json (J_int 100)])] \<and>
   drop 2 (map fst
     [(''purchase_date'', [Text ''2024-03-03'', Text ''2024-03-04'']),
      (''user_name'', [Text ''dana'', Text ''dana'']),
      (''sku'', [Of_json (J_string ''gems''), Missing]),
      (''iap_price'', [Of_json (J_float ''4.99''), Missing]),
      (''coins'', [Missing, Of_json (J_int 100)])]) = [''sku'', ''iap_price'', ''coins'']"
  using detail_table_payload_columns [OF sample_detail_mixed] sample_detail_mixed
  by simp

text \<open>
  C4 as stated fails: with the keys \<^verbatim>\<open>sku\<close>, \<^verbatim>\<open>iap_price\<close>, \<^verbatim>\<open>user_name\<close> and \<^verbatim>\<open>coins\<close> in
  the payloads, the union of the keys has \<^verbatim>\<open>user_name\<close>, but the payload-derived columns of
  the table are \<^verbatim>\<open>sku\<close>, \<^verbatim>\<open>iap_price\<close> and \<^verbatim>\<open>coins\<close>: the column \<^verbatim>\<open>user_name\<close> holds the
  query's values.
\<close>

theorem payload_key_user_name_counterexample:
  "apply_decode (map purchase_data
     [purchase_result 3 gems_payload (Some gems_price), purchase_result 4 clash_payload None]) =
   Inr [J_object [(''sku'', J_string ''gems''), (''iap_price'', J_float ''4.99'')],
        J_object [(''user_name'', J_string ''mallory''), (''coins'', J_int 100)]] \<and>
   union_keys
     [[(''sku'', J_string ''gems''), (''iap_price'', J_float ''4.99'')],
      [(''user_name'', J_string ''mallory''), (''coins'', J_int 100)]] =
   [''sku'', ''iap_price'', ''user_name'', ''coins''] \<and>
   detail_table
     [purchase_result 3 gems_payload (Some gems_price), purchase_result 4 clash_payload None] =
   Inr [(''purchase_date'', [Text ''2024-03-03'', Text ''2024-03-04'']),
        (''user_name'', [Text ''dana'', Text ''dana'']),
        (''sku'', [Of_json (J_string ''gems''), Missing]),
        (''iap_price'', [Of_json (J_float ''4.99''), Missing]),
        (''coins'', [Missing, Of_json (J_int 100)])]"
  by (intro conjI sample_decode_mixed sample_union_mixed sample_detail_mixed)

end
